theory Spec2Isabelle
  imports Main "HOL-Library.Sublist"
begin

section \<open>Go values used by the shim\<close>

text \<open>
  A Go function either returns or panics.  A panic is a value of the model, so that a
  nil dereference or an index out of range is a branch of the embedded function and
  not an unspecified HOL term.
\<close>

datatype panic = IndexOutOfRange | NilPointerDereference

datatype 'a outcome = Panic panic | Return 'a

text \<open>
  Errors.  \<open>ErrInvalidImage\<close> is the package variable of \<^verbatim>\<open>vm.go\<close>; \<open>New\<close> and
  \<open>Wrap\<close> are \<^verbatim>\<open>errors.New\<close> and \<^verbatim>\<open>errors.Wrap\<close>; \<open>PathError\<close> is what the \<^verbatim>\<open>os\<close>
  package returns (operation, path, errno); \<open>EngineError\<close> is an error handed back by
  the libvirt client, given by what \<^verbatim>\<open>libvirt.IsNotFound\<close> answers on it and by its
  \<^verbatim>\<open>Error()\<close> text; \<open>ToGRPC\<close> is \<^verbatim>\<open>errdefs.ToGRPC\<close>.
\<close>

datatype errno = ENOENT | EACCES | EEXIST | EIO

datatype err =
    ErrInvalidImage
  | New string
  | Wrap err string
  | PathError string string errno
  | ExecError string
  | JSONError string
  | XMLError string
  | EngineError bool string
  | ToGRPC err

fun errno_text :: "errno \<Rightarrow> string" where
  "errno_text ENOENT = ''no such file or directory''"
| "errno_text EACCES = ''permission denied''"
| "errno_text EEXIST = ''file exists''"
| "errno_text EIO = ''input/output error''"

fun Error :: "err \<Rightarrow> string" where
  "Error ErrInvalidImage = ''invalid image''"
| "Error (New m) = m"
| "Error (Wrap e m) = m @ '': '' @ Error e"
| "Error (PathError opn p n) = opn @ '' '' @ p @ '': '' @ errno_text n"
| "Error (ExecError m) = m"
| "Error (JSONError m) = m"
| "Error (XMLError m) = m"
| "Error (EngineError nf m) = m"
| "Error (ToGRPC e) = Error e"

text \<open>\<^verbatim>\<open>libvirt.IsNotFound\<close>: looks through wrappers for a libvirt error and reads its code.\<close>

fun IsNotFound :: "err \<Rightarrow> bool" where
  "IsNotFound (EngineError nf m) = nf"
| "IsNotFound (Wrap e m) = IsNotFound e"
| "IsNotFound e = False"

text \<open>\<^verbatim>\<open>os.IsNotExist\<close>: a path error whose errno is ENOENT.\<close>

fun IsNotExist :: "err \<Rightarrow> bool" where
  "IsNotExist (PathError opn p n) = (n = ENOENT)"
| "IsNotExist e = False"

text \<open>\<^verbatim>\<open>errors.Is(err, ErrInvalidImage)\<close>: the cause under the wrappers is the package variable.\<close>

fun IsInvalidImage :: "err \<Rightarrow> bool" where
  "IsInvalidImage ErrInvalidImage = True"
| "IsInvalidImage (Wrap e m) = IsInvalidImage e"
| "IsInvalidImage e = False"

subsection \<open>Strings and paths\<close>

text \<open>\<^verbatim>\<open>strings.Contains(s, substr)\<close>: \<open>substr\<close> occurs in \<open>s\<close> as a contiguous run.\<close>

definition Contains :: "string \<Rightarrow> string \<Rightarrow> bool" where
  "Contains s substr = sublist substr s"

text \<open>
  \<^verbatim>\<open>strings.Split(s, sep)\<close> for a one-character separator: every occurrence of the
  separator cuts, so the result has one more element than \<open>s\<close> has separators, and is
  never empty.
\<close>

fun Split :: "string \<Rightarrow> char \<Rightarrow> string list" where
  "Split [] sep = [[]]"
| "Split (c # cs) sep =
     (if c = sep then [] # Split cs sep
      else (case Split cs sep of
              [] \<Rightarrow> [[c]]
            | x # xs \<Rightarrow> (c # x) # xs))"

text \<open>\<^verbatim>\<open>strings.Join(elems, sep)\<close>.\<close>

fun strings_Join :: "string list \<Rightarrow> string \<Rightarrow> string" where
  "strings_Join [] sep = []"
| "strings_Join [x] sep = x"
| "strings_Join (x # y # ys) sep = x @ sep @ strings_Join (y # ys) sep"

text \<open>
  \<^verbatim>\<open>filepath.Clean\<close> on a Unix host, element by element: empty elements and \<open>.\<close> are
  dropped, \<open>..\<close> removes the element before it when there is one to remove, is
  dropped at the root and is kept at the front of a relative path; an empty result
  is \<open>.\<close>.  The third argument is the output so far, last element first.
\<close>

fun clean_elems :: "bool \<Rightarrow> string list \<Rightarrow> string list \<Rightarrow> string list" where
  "clean_elems rooted [] out = rev out"
| "clean_elems rooted (e # es) out =
     (if e = [] \<or> e = ''.'' then clean_elems rooted es out
      else if e = ''..'' then
        (case out of
           [] \<Rightarrow> if rooted then clean_elems rooted es [] else clean_elems rooted es [e]
         | x # xs \<Rightarrow> if x = ''..'' then clean_elems rooted es (e # out)
                     else clean_elems rooted es xs)
      else clean_elems rooted es (e # out))"

definition Clean :: "string \<Rightarrow> string" where
  "Clean p =
     (if p = [] then ''.''
      else let rooted = (hd p = CHR ''/'');
               out = (if rooted then ''/'' else []) @
                     strings_Join (clean_elems rooted (Split p (CHR ''/'')) []) ''/''
           in if out = [] then ''.'' else out)"

text \<open>\<^verbatim>\<open>filepath.Join\<close>: leading empty elements are skipped, the rest is joined and cleaned.\<close>

fun Join :: "string list \<Rightarrow> string" where
  "Join [] = []"
| "Join (e # es) = (if e = [] then Join es else Clean (strings_Join (e # es) ''/''))"

text \<open>
  \<^verbatim>\<open>strconv.Atoi\<close>: an optional sign, then at least one decimal digit and nothing else,
  and a value that fits a 64-bit \<^verbatim>\<open>int\<close>; \<open>None\<close> stands for the returned error.
\<close>

definition is_digit :: "char \<Rightarrow> bool" where
  "is_digit c = (48 \<le> (of_char c :: nat) \<and> (of_char c :: nat) \<le> 57)"

fun digits_value :: "string \<Rightarrow> nat \<Rightarrow> nat option" where
  "digits_value [] acc = Some acc"
| "digits_value (c # cs) acc =
     (if is_digit c then digits_value cs (acc * 10 + (of_char c - 48)) else None)"

definition Atoi :: "string \<Rightarrow> int option" where
  "Atoi s =
     (let neg = (s \<noteq> [] \<and> hd s = CHR ''-'');
          ds = (if s \<noteq> [] \<and> (hd s = CHR ''-'' \<or> hd s = CHR ''+'') then tl s else s)
      in if ds = [] then None
         else (case digits_value ds 0 of
                 None \<Rightarrow> None
               | Some n \<Rightarrow>
                   if neg then (if n \<le> 9223372036854775808 then Some (- int n) else None)
                   else (if n < 9223372036854775808 then Some (int n) else None)))"

text \<open>The conversion \<^verbatim>\<open>uint32(x)\<close> of a Go \<^verbatim>\<open>int\<close>: the low 32 bits.\<close>

definition uint32 :: "int \<Rightarrow> nat" where
  "uint32 x = nat (x mod 4294967296)"

section \<open>The hardware descriptor\<close>

text \<open>
  The structures of \<^verbatim>\<open>libvirtxml\<close> that \<^verbatim>\<open>RenderDomain\<close> fills in, field by field.
  A pointer field is an option; a pointer to a structure without fields is
  \<open>unit option\<close>.  Fields the function leaves at their zero value are not listed.
\<close>

record DomainMemory =
  Value :: nat
  Unit :: string

record DomainCurrentMemory =
  Value :: nat
  Unit :: string

record DomainCPUModel =
  Value :: string

record DomainCPU =
  Mode :: string
  Match :: string
  Model :: "DomainCPUModel option"

record DomainVCPU =
  Value :: nat

record DomainOSType =
  Arch :: string
  Machine :: string
  Type :: string

record DomainBootDevice =
  Dev :: string

record DomainOS =
  Firmware :: string
  Type :: "DomainOSType option"
  BootDevices :: "DomainBootDevice list"

record DomainFeatureList =
  ACPI :: "unit option"
  APIC :: "unit option"

record DomainClock =
  Offset :: string

record DomainController =
  Type :: string
  Model :: string

record DomainDiskDriver =
  Name :: string
  Type :: string
  Cache :: string

record DomainDiskSourceFile =
  File :: string

record DomainDiskSource =
  File :: "DomainDiskSourceFile option"

record DomainDiskTarget =
  Dev :: string
  Bus :: string

record DomainAddress =
  Drive :: "unit option"

record DomainDisk =
  Device :: string
  Driver :: "DomainDiskDriver option"
  Source :: "DomainDiskSource option"
  Target :: "DomainDiskTarget option"
  ReadOnly :: "unit option"
  Address :: "DomainAddress option"

record DomainInput =
  Type :: string
  Bus :: string

record DomainConsoleTarget =
  Type :: string

record DomainChardevSource =
  Pty :: "unit option"

record DomainConsole =
  Target :: "DomainConsoleTarget option"
  Source :: "DomainChardevSource option"

record DomainGraphicListenerAddress =
  Address :: string

record DomainGraphicListener =
  Address :: "DomainGraphicListenerAddress option"

record DomainGraphicVNC =
  AutoPort :: string
  Listen :: string
  Listeners :: "DomainGraphicListener list"

record DomainGraphic =
  VNC :: "DomainGraphicVNC option"

record DomainVideoModel =
  Type :: string
  Heads :: nat
  Primary :: string

record DomainVideo =
  Model :: DomainVideoModel

record DomainMemBalloon =
  Model :: string

record DomainDeviceList =
  Emulator :: string
  Controllers :: "DomainController list"
  Disks :: "DomainDisk list"
  Inputs :: "DomainInput list"
  Consoles :: "DomainConsole list"
  Graphics :: "DomainGraphic list"
  Videos :: "DomainVideo list"
  MemBalloon :: "DomainMemBalloon option"

record DomainQEMUCommandlineArg =
  Value :: string

record DomainQEMUCommandline =
  Args :: "DomainQEMUCommandlineArg list"

record Domain =
  Type :: string
  Name :: string
  UUID :: string
  Memory :: "DomainMemory option"
  CurrentMemory :: "DomainCurrentMemory option"
  CPU :: "DomainCPU option"
  VCPU :: "DomainVCPU option"
  OS :: "DomainOS option"
  Features :: "DomainFeatureList option"
  Clock :: "DomainClock option"
  OnPoweroff :: string
  OnReboot :: string
  OnCrash :: string
  Devices :: "DomainDeviceList option"
  QEMUCommandline :: "DomainQEMUCommandline option"

definition defaultRootImagePath :: string where
  "defaultRootImagePath = ''disk''"

definition defaultRootImageFileName :: string where
  "defaultRootImageFileName = ''boot.qcow2''"

definition defaultCloudInitImageFileName :: string where
  "defaultCloudInitImageFileName = ''cloudinit.iso''"

text \<open>
  \<^verbatim>\<open>RenderDomain(id, bundle)\<close>.  The source calls \<^verbatim>\<open>uuid.New()\<close> for the UUID field: a
  fresh random value at every call.  The model takes that value as a third argument.
\<close>

definition RenderDomain :: "string \<Rightarrow> string \<Rightarrow> string \<Rightarrow> Domain" where
  "RenderDomain ident bundle_dir fresh_uuid =
     \<lparr> Domain.Type = ''hvf'',
       Domain.Name = ident,
       UUID = fresh_uuid,
       Memory = Some \<lparr> DomainMemory.Value = 2, DomainMemory.Unit = ''GiB'' \<rparr>,
       CurrentMemory = Some \<lparr> DomainCurrentMemory.Value = 2, DomainCurrentMemory.Unit = ''GiB'' \<rparr>,
       CPU = Some \<lparr> Mode = ''custom'', Match = ''exact'',
                     DomainCPU.Model = Some \<lparr> DomainCPUModel.Value = ''host'' \<rparr> \<rparr>,
       VCPU = Some \<lparr> DomainVCPU.Value = 8 \<rparr>,
       OS = Some \<lparr> Firmware = ''efi'',
                    DomainOS.Type = Some \<lparr> Arch = ''aarch64'', Machine = ''virt'',
                                           DomainOSType.Type = ''hvm'' \<rparr>,
                    BootDevices = [\<lparr> DomainBootDevice.Dev = ''hd'' \<rparr>] \<rparr>,
       Features = Some \<lparr> ACPI = Some (), APIC = Some () \<rparr>,
       Clock = Some \<lparr> Offset = ''localtime'' \<rparr>,
       OnPoweroff = ''destroy'',
       OnReboot = ''restart'',
       OnCrash = ''restart'',
       Devices = Some
         \<lparr> Emulator = ''/opt/homebrew/bin/qemu-system-aarch64'',
           Controllers = [\<lparr> DomainController.Type = ''usb'', DomainController.Model = ''qemu-xhci'' \<rparr>],
           Disks =
             [\<lparr> Device = ''cdrom'',
                Driver = Some \<lparr> DomainDiskDriver.Name = ''qemu'', DomainDiskDriver.Type = ''raw'',
                                Cache = ''none'' \<rparr>,
                DomainDisk.Source = Some \<lparr> DomainDiskSource.File = Some
                  \<lparr> DomainDiskSourceFile.File =
                      Join [bundle_dir, ''rootfs'', defaultRootImagePath, defaultCloudInitImageFileName] \<rparr> \<rparr>,
                DomainDisk.Target = Some \<lparr> DomainDiskTarget.Dev = ''vda'', DomainDiskTarget.Bus = ''sata'' \<rparr>,
                ReadOnly = Some (),
                DomainDisk.Address = Some \<lparr> Drive = Some () \<rparr> \<rparr>,
              \<lparr> Device = ''disk'',
                Driver = Some \<lparr> DomainDiskDriver.Name = ''qemu'', DomainDiskDriver.Type = ''qcow2'',
                                Cache = [] \<rparr>,
                DomainDisk.Source = Some \<lparr> DomainDiskSource.File = Some
                  \<lparr> DomainDiskSourceFile.File =
                      Join [bundle_dir, ''rootfs'', defaultRootImagePath, defaultRootImageFileName] \<rparr> \<rparr>,
                DomainDisk.Target = Some \<lparr> DomainDiskTarget.Dev = ''vdb'', DomainDiskTarget.Bus = ''virtio'' \<rparr>,
                ReadOnly = None,
                DomainDisk.Address = None \<rparr>],
           Inputs = [\<lparr> DomainInput.Type = ''tablet'', DomainInput.Bus = ''usb'' \<rparr>,
                     \<lparr> DomainInput.Type = ''keyboard'', DomainInput.Bus = ''usb'' \<rparr>],
           Consoles =
             [\<lparr> DomainConsole.Target = Some \<lparr> DomainConsoleTarget.Type = ''serial'' \<rparr>,
                DomainConsole.Source = Some \<lparr> Pty = Some () \<rparr> \<rparr>],
           Graphics =
             [\<lparr> VNC = Some
                 \<lparr> AutoPort = ''yes'',
                   Listen = ''0.0.0.0'',
                   Listeners = [\<lparr> DomainGraphicListener.Address =
                                    Some \<lparr> DomainGraphicListenerAddress.Address = ''0.0.0.0'' \<rparr> \<rparr>] \<rparr> \<rparr>],
           Videos = [\<lparr> DomainVideo.Model =
                        \<lparr> DomainVideoModel.Type = ''virtio'', Heads = 1, Primary = ''yes'' \<rparr> \<rparr>],
           MemBalloon = Some \<lparr> DomainMemBalloon.Model = ''virtio'' \<rparr> \<rparr>,
       QEMUCommandline = Some
         \<lparr> Args = [\<lparr> DomainQEMUCommandlineArg.Value = ''-netdev'' \<rparr>,
                    \<lparr> DomainQEMUCommandlineArg.Value = ''vmnet-shared,id=net0'' \<rparr>,
                    \<lparr> DomainQEMUCommandlineArg.Value = ''-device'' \<rparr>,
                    \<lparr> DomainQEMUCommandlineArg.Value = ''virtio-net-device,netdev=net0'' \<rparr>] \<rparr> \<rparr>"

section \<open>The virtual machine of one task\<close>

record Stdio =
  Stdin :: string
  Stdout :: string
  Stderr :: string
  Terminal :: bool

record Mount =
  Type :: string
  Source :: string
  Target :: string
  Options :: "string list"

record Process =
  Env :: "string list"

record Spec =
  Process :: "Process option"

text \<open>\<^verbatim>\<open>libvirt.Domain\<close>, the handle the engine returns when a domain is defined.\<close>

record libvirt_Domain =
  Name :: string
  UUID :: "nat list"
  ID :: int

definition zero_Domain :: libvirt_Domain where
  "zero_Domain = \<lparr> libvirt_Domain.Name = [], libvirt_Domain.UUID = replicate 16 0, ID = 0 \<rparr>"

text \<open>
  The fields of \<^verbatim>\<open>VM\<close>.  \<open>domain\<close> is the pointer to the rendered descriptor, \<open>None\<close>
  while it is nil.  \<open>cancelled\<close> says whether the context \<^verbatim>\<open>v.ctx\<close> is done, that is,
  whether \<^verbatim>\<open>v.cancel()\<close> has been called.  Times are seconds; the zero time is 0.
  The engine connection \<^verbatim>\<open>client\<close> has no field: what the engine answers is read from
  the \<open>World\<close> below.
\<close>

record VM =
  id' :: string
  stdio :: Stdio
  bundle' :: string
  pid :: int
  status :: int
  started :: bool
  exited :: bool
  exitedAt :: nat
  spec :: Spec
  mounts :: "Mount list"
  env :: "string \<rightharpoonup> string"
  domainMeta :: libvirt_Domain
  domain :: "Domain option"
  cancelled :: bool

record QemuImageInfo =
  Path :: string
  VirtualSize :: nat
  Format :: string
  DirtyFlag :: bool

text \<open>
  What \<^verbatim>\<open>cmd.Output()\<close> gives for a command built by \<^verbatim>\<open>exec.Command\<close>: the lookup of
  the executable failed (then \<^verbatim>\<open>cmd.Err\<close> holds that error and \<^verbatim>\<open>Output\<close> returns it),
  or the executable was found and starting or running it failed (then \<^verbatim>\<open>cmd.Err\<close> is
  nil), or it ran and printed.
\<close>

datatype cmd_result = LookPathFailed err | RunFailed err | Printed string

text \<open>
  Everything outside the process that one call reads: the file system, the clock,
  the random source, the external tool and the answers of the virtualization engine.
  Each operation below takes the world it runs in.  The answer of an engine call is a
  field of that world; the handle passed to the call does not appear.
\<close>

record World =
  client_Connect :: "err option"
  os_Stat :: "string \<Rightarrow> err + nat"
  os_ReadFile :: "string \<Rightarrow> err + string"
  os_Symlink :: "string \<Rightarrow> string \<Rightarrow> err option"
  os_Remove :: "string \<Rightarrow> err option"
  os_OpenFile :: "string \<Rightarrow> err option"
  os_Open :: "string \<Rightarrow> err option"
  json_Decode :: "err + Spec"
  cmd_Output :: "string list \<Rightarrow> cmd_result"
  json_Unmarshal :: "string \<Rightarrow> err + QemuImageInfo"
  time_Now :: nat
  uuid_New :: string
  xml_Marshal :: "err + string"
  DomainDefineXML :: "err + libvirt_Domain"
  DomainCreate :: "err option"
  DomainDestroy :: "err option"
  DomainUndefineFlags :: "err option"
  DomainGetState :: "err + int"

text \<open>What an operation does to the host besides its result, where a claim speaks of it.\<close>

datatype effect = Symlinked string string | Removed string | Logged string

subsection \<open>NewVM\<close>

text \<open>
  The loop of \<^verbatim>\<open>NewVM\<close> over \<^verbatim>\<open>spec.Process.Env\<close>:
  \<^verbatim>\<open>split := strings.Split(s, "="); env[split[0]] = split[1]\<close>.
  \<^verbatim>\<open>split[0]\<close> always exists; \<^verbatim>\<open>split[1]\<close> panics when the slice has one element.
\<close>

fun parse_env :: "string list \<Rightarrow> (string \<rightharpoonup> string) \<Rightarrow> (string \<rightharpoonup> string) outcome" where
  "parse_env [] m = Return m"
| "parse_env (s # ss) m =
     (case Split s (CHR ''='') of
        k # v # rest \<Rightarrow> parse_env ss (m(k \<mapsto> v))
      | _ \<Rightarrow> Panic IndexOutOfRange)"

definition NewVM ::
  "string \<Rightarrow> Stdio \<Rightarrow> Spec \<Rightarrow> string \<Rightarrow> Mount list \<Rightarrow> World \<Rightarrow> (VM option \<times> err option) outcome" where
  "NewVM ident stdio_arg spec_arg bundle_arg rootFS w =
     (case client_Connect w of
        Some e \<Rightarrow> Return (None, Some (Wrap e ''failed to connect to libvirtd''))
      | None \<Rightarrow>
          (case (case Process spec_arg of
                   None \<Rightarrow> Return Map.empty
                 | Some p \<Rightarrow> parse_env (Env p) Map.empty) of
             Panic p \<Rightarrow> Panic p
           | Return m \<Rightarrow>
               Return (Some \<lparr> id' = ident, stdio = stdio_arg, bundle' = bundle_arg, pid = 0,
                               status = 0, started = False, exited = False, exitedAt = 0,
                               spec = spec_arg, mounts = rootFS, env = m,
                               domainMeta = zero_Domain, domain = None, cancelled = False \<rparr>,
                       None)))"

subsection \<open>Init and the image validation\<close>

definition getImageInfo :: "string \<Rightarrow> World \<Rightarrow> (QemuImageInfo option \<times> err option) outcome" where
  "getImageInfo path w =
     (case cmd_Output w [''qemu-img'', ''info'', path, ''--output=json''] of
        LookPathFailed e \<Rightarrow>
          Return (None, Some (Wrap e (''failed to run qemu-img info at '' @ path @ '', err '' @ Error e)))
      | RunFailed e \<Rightarrow> Panic NilPointerDereference
      | Printed res \<Rightarrow>
          (case json_Unmarshal w res of
             Inl e \<Rightarrow> Return (None, Some (Wrap e ''failed to read qemu-img info''))
           | Inr info \<Rightarrow>
               Return (Some (if Format info = [] then info\<lparr>Format := ''raw''\<rparr> else info), None)))"

text \<open>
  The loop of \<^verbatim>\<open>setupRootFS\<close> over the mounts; the accumulator is
  (\<^verbatim>\<open>imagePath\<close>, \<^verbatim>\<open>bootImage\<close>, \<^verbatim>\<open>cloudinitImage\<close>), all empty at the start.
\<close>

fun bind_paths :: "Mount list \<Rightarrow> string \<times> string \<times> string \<Rightarrow> string \<times> string \<times> string" where
  "bind_paths [] acc = acc"
| "bind_paths (m # ms) acc =
     (if Mount.Type m \<noteq> ''bind'' then bind_paths ms acc
      else let imagePath = Join [Mount.Source m, defaultRootImagePath]
           in bind_paths ms (imagePath,
                             Join [imagePath, defaultRootImageFileName],
                             Join [imagePath, defaultCloudInitImageFileName]))"

definition setupRootFS :: "VM \<Rightarrow> World \<Rightarrow> (err option \<times> effect list) outcome" where
  "setupRootFS v w =
     (case bind_paths (mounts v) ([], [], []) of
        (imagePath, bootImage, cloudinitImage) \<Rightarrow>
          if bootImage = [] then Return (Some (Wrap ErrInvalidImage ''no bind type mounts''), [])
          else
            (case os_Stat w bootImage of
               Inl e \<Rightarrow> Return (Some e, [])
             | Inr sz \<Rightarrow>
                 (case getImageInfo bootImage w of
                    Panic p \<Rightarrow> Panic p
                  | Return (bootInfo, Some e) \<Rightarrow> Return (Some e, [])
                  | Return (None, None) \<Rightarrow> Panic NilPointerDereference
                  | Return (Some bootInfo, None) \<Rightarrow>
                      if Format bootInfo \<noteq> ''qcow2''
                      then Return (Some (Wrap ErrInvalidImage (bootImage @ '' is not a qcow2 image'')), [])
                      else
                        (case os_Stat w cloudinitImage of
                           Inl e \<Rightarrow> Return (Some e, [])
                         | Inr sz' \<Rightarrow>
                             (case os_Symlink w imagePath
                                     (Join [bundle' v, ''rootfs'', defaultRootImagePath]) of
                                Some e \<Rightarrow> Return (Some e, [])
                              | None \<Rightarrow>
                                  Return (None,
                                    [Symlinked imagePath
                                       (Join [bundle' v, ''rootfs'', defaultRootImagePath])]))))))"

definition Init :: "VM \<Rightarrow> World \<Rightarrow> (err option \<times> VM \<times> effect list) outcome" where
  "Init v w =
     (case setupRootFS v w of
        Panic p \<Rightarrow> Panic p
      | Return (Some e, effs) \<Rightarrow> Return (Some (Wrap e ''failed to set up rootfs''), v, effs)
      | Return (None, effs) \<Rightarrow>
          (let v1 = v\<lparr>domain := Some (RenderDomain (id' v) (bundle' v) (uuid_New w))\<rparr>
           in case xml_Marshal w of
                Inl e \<Rightarrow> Return (Some e, v1, effs)
              | Inr xmlString \<Rightarrow>
                  (case DomainDefineXML w of
                     Inl e \<Rightarrow> Return (Some e, v1, effs)
                   | Inr meta \<Rightarrow> Return (None, v1\<lparr>domainMeta := meta\<rparr>, effs))))"

subsection \<open>Pid, Start, Delete, Kill\<close>

definition pidFile :: "string \<Rightarrow> string" where
  "pidFile name = ''/opt/homebrew/var/run/libvirt/qemu/'' @ name @ ''.pid''"

text \<open>
  \<^verbatim>\<open>Pid\<close> reads \<^verbatim>\<open>v.domain.Name\<close> first, which panics on a nil \<^verbatim>\<open>v.domain\<close>.  It
  returns \<^verbatim>\<open>uint32(v.pid)\<close> for a cached pid, and otherwise whatever the pid file
  gives, caching what it parsed.
\<close>

definition Pid :: "VM \<Rightarrow> World \<Rightarrow> (nat \<times> VM) outcome" where
  "Pid v w =
     (case domain v of
        None \<Rightarrow> Panic NilPointerDereference
      | Some d \<Rightarrow>
          if Domain.Name d = [] then Return (0, v)
          else if pid v \<noteq> 0 then Return (uint32 (pid v), v)
          else
            (case os_Stat w (pidFile (Domain.Name d)) of
               Inl e \<Rightarrow> Return (0, v)
             | Inr sz \<Rightarrow>
                 if sz = 0 then Return (0, v)
                 else
                   (case os_ReadFile w (pidFile (Domain.Name d)) of
                      Inl e \<Rightarrow> Return (0, v)
                    | Inr data \<Rightarrow>
                        (case Atoi data of
                           None \<Rightarrow> Return (0, v)
                         | Some p \<Rightarrow> Return (uint32 p, v\<lparr>pid := p\<rparr>)))))"

definition quoted :: "string \<Rightarrow> string" where
  "quoted s = [CHR 0x27] @ s @ [CHR 0x27]"

definition Start :: "VM \<Rightarrow> World \<Rightarrow> (err option \<times> VM) outcome" where
  "Start v w =
     (case DomainCreate w of
        Some e \<Rightarrow>
          (case domain v of
             None \<Rightarrow> Panic NilPointerDereference
           | Some d \<Rightarrow> Return (Some (Wrap e (''failed to start VM '' @ quoted (Domain.Name d))), v))
      | None \<Rightarrow> Return (None, v\<lparr>started := True\<rparr>))"

text \<open>\<^verbatim>\<open>containerd.ExitStatus\<close>: exit code, exit time and the error it carries.\<close>

record ExitStatus =
  code :: nat
  exitedAt :: nat
  err :: "err option"

text \<open>
  \<^verbatim>\<open>VM.Delete\<close>.  The deferred function runs after the result is fixed: it removes
  \<^verbatim>\<open>bundle/rootfs/disk\<close> and logs when that fails.
\<close>

definition Delete :: "VM \<Rightarrow> World \<Rightarrow> (ExitStatus option \<times> err option) \<times> VM \<times> effect list" where
  "Delete v w =
     (let removal =
            (case os_Remove w (Join [bundle' v, ''rootfs'', defaultRootImagePath]) of
               Some removeErr \<Rightarrow> [Logged ''failed to remove image path'']
             | None \<Rightarrow> [Removed (Join [bundle' v, ''rootfs'', defaultRootImagePath])])
      in case DomainUndefineFlags w of
           Some e \<Rightarrow>
             if \<not> IsNotFound e
             then ((Some \<lparr> code = 1, exitedAt = VM.exitedAt v, err = Some e \<rparr>, None), v, removal)
             else ((Some \<lparr> code = 0, exitedAt = VM.exitedAt v, err = None \<rparr>, None), v, removal)
         | None \<Rightarrow> ((Some \<lparr> code = 0, exitedAt = VM.exitedAt v, err = None \<rparr>, None), v, removal))"

text \<open>The four assignments that \<^verbatim>\<open>Kill\<close> makes on both of its terminating paths.\<close>

definition terminated :: "VM \<Rightarrow> World \<Rightarrow> VM" where
  "terminated v w =
     v\<lparr>stdio := (stdio v)\<lparr>Terminal := True\<rparr>, VM.exitedAt := time_Now w, exited := True,
       cancelled := True\<rparr>"

definition Kill :: "VM \<Rightarrow> int \<Rightarrow> World \<Rightarrow> (err option \<times> VM) outcome" where
  "Kill v signal w =
     (case DomainDestroy w of
        Some e \<Rightarrow>
          if IsNotFound e \<or> Contains (Error e) ''is not running''
          then Return (None, terminated v w)
          else
            (case domain v of
               None \<Rightarrow> Panic NilPointerDereference
             | Some d \<Rightarrow> Return (Some (Wrap e (''failed to stop VM '' @ quoted (Domain.Name d))), v))
      | None \<Rightarrow> Return (None, terminated v w))"

subsection \<open>Status and Wait\<close>

datatype ProcessStatus = Running | Created | Stopped | Paused | Pausing | Unknown

definition Status :: "VM \<Rightarrow> World \<Rightarrow> ((ProcessStatus \<times> err option) \<times> VM) outcome" where
  "Status v w =
     (if \<not> started v then Return ((Created, None), v)
      else
        (case Pid v w of
           Panic p \<Rightarrow> Panic p
         | Return (p, v1) \<Rightarrow>
             if p = 0 then
               (if exited v1 then Return ((Stopped, None), v1) else Return ((Unknown, None), v1))
             else
               (case DomainGetState w of
                  Inl e \<Rightarrow>
                    if Contains (Error e) ''not found'' then
                      (if exited v1 then Return ((Stopped, None), v1)
                       else Return ((Unknown, None), v1))
                    else Return ((Unknown, Some e), v1)
                | Inr virDomainState \<Rightarrow>
                    if virDomainState = 0 then Return ((Created, None), v1)
                    else if virDomainState = 1 then Return ((Running, None), v1)
                    else if virDomainState = 3 \<or> virDomainState = 7 then Return ((Paused, None), v1)
                    else if virDomainState = 4 then Return ((Pausing, None), v1)
                    else if virDomainState = 5 \<or> virDomainState = 6 then Return ((Stopped, None), v1)
                    else Return ((Unknown, None), v1))))"

text \<open>
  \<^verbatim>\<open>Wait\<close> starts a goroutine that selects on three channels until it returns, while the
  caller blocks on the derived context.  The model is driven by the list of select
  cases that fire, each with the world its status query runs in: a tick of the
  ticker, the VM's own context being done (which can fire only once \<^verbatim>\<open>Kill\<close> has
  cancelled it), or the caller's context being done.  The loop's answer says whether
  the derived context is done; when the events run out first, the caller is still
  blocked and \<open>Wait\<close> has not returned (\<open>None\<close>).
\<close>

datatype wait_event = Tick World | VMDone World | CtxDone

fun Wait_loop :: "VM \<Rightarrow> wait_event list \<Rightarrow> (bool \<times> VM) outcome" where
  "Wait_loop v [] = Return (False, v)"
| "Wait_loop v (Tick w # evs) =
     (case Status v w of
        Panic p \<Rightarrow> Panic p
      | Return ((st, e), v1) \<Rightarrow>
          if e = None \<and> st = Stopped then Return (True, v1) else Wait_loop v1 evs)"
| "Wait_loop v (VMDone w # evs) =
     (if \<not> cancelled v then Wait_loop v evs
      else
        (case Status v w of
           Panic p \<Rightarrow> Panic p
         | Return ((st, e), v1) \<Rightarrow>
             if e = None \<and> st = Stopped then Return (True, v1) else Wait_loop v1 evs))"
| "Wait_loop v (CtxDone # evs) = Return (True, v)"

definition Wait :: "VM \<Rightarrow> wait_event list \<Rightarrow> World \<Rightarrow> ((ExitStatus \<times> err option) option \<times> VM) outcome" where
  "Wait v evs w =
     (case Wait_loop v evs of
        Panic p \<Rightarrow> Panic p
      | Return (False, v1) \<Rightarrow> Return (None, v1)
      | Return (True, v1) \<Rightarrow>
          Return (Some (\<lparr> code = 0, exitedAt = time_Now w, err = None \<rparr>, None), v1))"

subsection \<open>Sequences of operations on one VM\<close>

text \<open>
  The operations of a VM as data, each run in a world of its own; \<open>run_ops\<close> threads the
  VM through a list of them and stops at the first panic.  Results are dropped: only
  the VM that the next operation sees matters here.
\<close>

datatype operation =
  OpInit | OpStart | OpKill int | OpStatus | OpPid | OpDelete | OpWait "wait_event list"

fun apply_op :: "VM \<Rightarrow> operation \<times> World \<Rightarrow> VM outcome" where
  "apply_op v (OpInit, w) =
     (case Init v w of Panic p \<Rightarrow> Panic p | Return (e, v1, effs) \<Rightarrow> Return v1)"
| "apply_op v (OpStart, w) =
     (case Start v w of Panic p \<Rightarrow> Panic p | Return (e, v1) \<Rightarrow> Return v1)"
| "apply_op v (OpKill signal, w) =
     (case Kill v signal w of Panic p \<Rightarrow> Panic p | Return (e, v1) \<Rightarrow> Return v1)"
| "apply_op v (OpStatus, w) =
     (case Status v w of Panic p \<Rightarrow> Panic p | Return (r, v1) \<Rightarrow> Return v1)"
| "apply_op v (OpPid, w) =
     (case Pid v w of Panic p \<Rightarrow> Panic p | Return (n, v1) \<Rightarrow> Return v1)"
| "apply_op v (OpDelete, w) = (case Delete v w of (r, v1, effs) \<Rightarrow> Return v1)"
| "apply_op v (OpWait evs, w) =
     (case Wait v evs w of Panic p \<Rightarrow> Panic p | Return (r, v1) \<Rightarrow> Return v1)"

fun run_ops :: "VM \<Rightarrow> (operation \<times> World) list \<Rightarrow> VM outcome" where
  "run_ops v [] = Return v"
| "run_ops v (ow # ows) =
     (case apply_op v ow of Panic p \<Rightarrow> Panic p | Return v1 \<Rightarrow> run_ops v1 ows)"

section \<open>The task service\<close>

text \<open>
  Lifecycle events, with the fields the service fills in: \<open>TaskCreate\<close> (container id,
  bundle, rootfs, stdio, checkpoint, pid), \<open>TaskExecStarted\<close> (container id, exec id,
  pid), \<open>TaskDelete\<close> (container id, pid, exit status, exit time).
\<close>

datatype event =
    TaskCreate string string "Mount list" Stdio string nat
  | TaskExecStarted string string nat
  | TaskDelete string nat nat nat

text \<open>
  The service: its id, the events sent and not yet forwarded (oldest first), the map
  from task id to VM, the shim address and the open log file.  The map holds pointers
  in the source, so an operation that changes a VM is modelled by storing the changed
  VM back under its id.  Primed field names avoid a clash with a name above.
\<close>

record TaskService =
  shim_id :: string
  events :: "event list"
  vm :: "string \<rightharpoonup> VM"
  shimAddress :: string
  f :: "string option"

record CreateTaskRequest =
  ID :: string
  Bundle :: string
  Rootfs :: "Mount list"
  Terminal :: bool
  Stdin :: string
  Stdout :: string
  Stderr :: string
  Checkpoint :: string

record CreateTaskResponse =
  Pid' :: nat

record DeleteRequest =
  ID :: string
  ExecID :: string

record DeleteResponse =
  ExitStatus' :: nat
  ExitedAt :: nat
  Pid' :: nat

definition send :: "TaskService \<Rightarrow> event \<Rightarrow> TaskService" where
  "send s evt = s\<lparr>events := events s @ [evt]\<rparr>"

definition readSpec :: "World \<Rightarrow> Spec option \<times> err option" where
  "readSpec w =
     (case os_Open w ''config.json'' of
        Some e \<Rightarrow> (None, Some e)
      | None \<Rightarrow> (case json_Decode w of Inl e \<Rightarrow> (None, Some e) | Inr sp \<Rightarrow> (Some sp, None)))"

definition TaskService_Create ::
  "TaskService \<Rightarrow> CreateTaskRequest \<Rightarrow> World \<Rightarrow>
     ((CreateTaskResponse \<times> err option) \<times> TaskService) outcome" where
  "TaskService_Create s r w =
     (let logDir = Join [''/var/log/containerd-shim-hvf-v1'', CreateTaskRequest.ID r]
      in case os_OpenFile w (Join [logDir, ''shim.log'']) of
           Some e \<Rightarrow> Return ((\<lparr> CreateTaskResponse.Pid' = 0 \<rparr>, Some e), s)
         | None \<Rightarrow>
             (let s1 = s\<lparr>f := Some (Join [logDir, ''shim.log''])\<rparr>
              in case readSpec w of
                   (sp, Some e) \<Rightarrow> Return ((\<lparr> CreateTaskResponse.Pid' = 0 \<rparr>, Some (ToGRPC e)), s1)
                 | (None, None) \<Rightarrow> Panic NilPointerDereference
                 | (Some sp, None) \<Rightarrow>
                     (case NewVM (CreateTaskRequest.ID r)
                             \<lparr> Stdio.Stdin = CreateTaskRequest.Stdin r,
                               Stdio.Stdout = CreateTaskRequest.Stdout r,
                               Stdio.Stderr = CreateTaskRequest.Stderr r,
                               Stdio.Terminal = CreateTaskRequest.Terminal r \<rparr>
                             sp (Bundle r) (Rootfs r) w of
                        Panic p \<Rightarrow> Panic p
                      | Return (v, Some e) \<Rightarrow>
                          Return ((\<lparr> CreateTaskResponse.Pid' = 0 \<rparr>,
                                   Some (ToGRPC (Wrap e ''failed to create VM''))), s1)
                      | Return (None, None) \<Rightarrow> Panic NilPointerDereference
                      | Return (Some v, None) \<Rightarrow>
                          (case Init v w of
                             Panic p \<Rightarrow> Panic p
                           | Return (Some e, v1, effs) \<Rightarrow>
                               Return ((\<lparr> CreateTaskResponse.Pid' = 0 \<rparr>,
                                        Some (ToGRPC (Wrap e ''failed to initialize VM''))),
                                       s1\<lparr>vm := (vm s1)(VM.id' v \<mapsto> v1)\<rparr>)
                           | Return (None, v1, effs) \<Rightarrow>
                               (case Pid v1 w of
                                  Panic p \<Rightarrow> Panic p
                                | Return (p1, v2) \<Rightarrow>
                                    (case Pid v2 w of
                                       Panic p \<Rightarrow> Panic p
                                     | Return (p2, v3) \<Rightarrow>
                                         Return ((\<lparr> CreateTaskResponse.Pid' = p2 \<rparr>, None),
                                           send (s1\<lparr>vm := (vm s1)(VM.id' v \<mapsto> v3)\<rparr>)
                                             (TaskCreate (CreateTaskRequest.ID r) (Bundle r) (Rootfs r)
                                                \<lparr> Stdio.Stdin = CreateTaskRequest.Stdin r,
                                                  Stdio.Stdout = CreateTaskRequest.Stdout r,
                                                  Stdio.Stderr = CreateTaskRequest.Stderr r,
                                                  Stdio.Terminal = CreateTaskRequest.Terminal r \<rparr>
                                                (Checkpoint r) p1))))))))"

definition TaskService_Delete ::
  "TaskService \<Rightarrow> DeleteRequest \<Rightarrow> World \<Rightarrow>
     ((DeleteResponse option \<times> err option) \<times> TaskService) outcome" where
  "TaskService_Delete s r w =
     (case vm s (DeleteRequest.ID r) of
        None \<Rightarrow> Return ((None, Some (ToGRPC (New ''process not found''))), s)
      | Some v \<Rightarrow>
          (case Delete v w of
             ((st, Some e), v1, effs) \<Rightarrow>
               Return ((None, Some (ToGRPC (Wrap e ''failed to delete process''))),
                       s\<lparr>vm := (vm s)(DeleteRequest.ID r \<mapsto> v1)\<rparr>)
           | ((None, None), v1, effs) \<Rightarrow> Panic NilPointerDereference
           | ((Some exitStatus, None), v1, effs) \<Rightarrow>
               (case Pid v1 w of
                  Panic p \<Rightarrow> Panic p
                | Return (p, v2) \<Rightarrow>
                    (let s1 = s\<lparr>vm := (vm s)(DeleteRequest.ID r \<mapsto> v2)\<rparr>;
                         evt = TaskDelete (DeleteRequest.ID r) p (code exitStatus)
                                 (ExitStatus.exitedAt exitStatus)
                     in Return ((Some \<lparr> ExitStatus' = code exitStatus,
                                        ExitedAt = ExitStatus.exitedAt exitStatus,
                                        DeleteResponse.Pid' = p \<rparr>, None),
                                if ExecID r = [] then send s1 evt else s1)))))"

text \<open>
  The operations the shim does not support.  Each logs one line (deferred) and returns
  \<^verbatim>\<open>nil, nil\<close>; the request is of any type.
\<close>

datatype StatsResponse = StatsResponse

definition Pause :: "TaskService \<Rightarrow> 'r \<Rightarrow> (unit option \<times> err option) \<times> TaskService \<times> effect list" where
  "Pause s r = ((None, None), s, [Logged ''Task Pause''])"

definition Resume :: "TaskService \<Rightarrow> 'r \<Rightarrow> (unit option \<times> err option) \<times> TaskService \<times> effect list" where
  "Resume s r = ((None, None), s, [Logged ''Task Resume''])"

definition Checkpoint' :: "TaskService \<Rightarrow> 'r \<Rightarrow> (unit option \<times> err option) \<times> TaskService \<times> effect list" where
  "Checkpoint' s r = ((None, None), s, [Logged ''Task Checkpoint''])"

definition Exec :: "TaskService \<Rightarrow> 'r \<Rightarrow> (unit option \<times> err option) \<times> TaskService \<times> effect list" where
  "Exec s r = ((None, None), s, [Logged ''Task Exec''])"

definition ResizePty :: "TaskService \<Rightarrow> 'r \<Rightarrow> (unit option \<times> err option) \<times> TaskService \<times> effect list" where
  "ResizePty s r = ((None, None), s, [Logged ''Task ResizePty''])"

definition CloseIO :: "TaskService \<Rightarrow> 'r \<Rightarrow> (unit option \<times> err option) \<times> TaskService \<times> effect list" where
  "CloseIO s r = ((None, None), s, [Logged ''Task CloseIO''])"

definition Update :: "TaskService \<Rightarrow> 'r \<Rightarrow> (unit option \<times> err option) \<times> TaskService \<times> effect list" where
  "Update s r = ((None, None), s, [Logged ''Task Update''])"

definition Stats :: "TaskService \<Rightarrow> 'r \<Rightarrow> (StatsResponse option \<times> err option) \<times> TaskService \<times> effect list" where
  "Stats s r = ((None, None), s, [Logged ''Task Stats''])"

section \<open>Auxiliary notions for the statements\<close>

text \<open>
  The four signals the status query combines: the started flag, the exited flag,
  whether \<open>Pid\<close> resolves a non-zero process id, and the engine's answer to the state
  query; and the part of the query's outcome that the caller sees.
\<close>

definition status_signals :: "VM \<Rightarrow> World \<Rightarrow> bool \<times> bool \<times> bool outcome \<times> (err + int)" where
  "status_signals v w =
     (started v, exited v,
      (case Pid v w of Panic p \<Rightarrow> Panic p | Return (n, v1) \<Rightarrow> Return (n \<noteq> 0)),
      DomainGetState w)"

definition status_of :: "((ProcessStatus \<times> err option) \<times> VM) outcome \<Rightarrow> (ProcessStatus \<times> err option) outcome" where
  "status_of r = (case r of Panic p \<Rightarrow> Panic p | Return (x, v1) \<Rightarrow> Return x)"

text \<open>\<open>caches_pid v v1\<close>: \<open>v1\<close> is \<open>v\<close>, or \<open>v\<close> with a pid cached by \<open>Pid\<close>.\<close>

definition caches_pid :: "VM \<Rightarrow> VM \<Rightarrow> bool" where
  "caches_pid v v1 =
     (v1 = v \<or>
      (pid v = 0 \<and> (case domain v of None \<Rightarrow> False | Some d \<Rightarrow> Domain.Name d \<noteq> [])
       \<and> v1 = v\<lparr>pid := pid v1\<rparr>))"

text \<open>
  The invariant behind the pid cache: the descriptor, once rendered, is named after the
  task, and a pid is cached only under a rendered descriptor with a non-empty name.
\<close>

definition pid_cache_wf :: "VM \<Rightarrow> bool" where
  "pid_cache_wf v =
     (case domain v of
        None \<Rightarrow> pid v = 0
      | Some d \<Rightarrow> Domain.Name d = VM.id' v \<and> (pid v = 0 \<or> VM.id' v \<noteq> []))"

text \<open>
  The bind-type entries of a mount list, and the root-image directory derived from the
  last of them (meaningful when there is one).
\<close>

definition bind_mounts :: "Mount list \<Rightarrow> Mount list" where
  "bind_mounts ms = filter (\<lambda>m. Mount.Type m = ''bind'') ms"

definition root_image_dir :: "Mount list \<Rightarrow> string" where
  "root_image_dir ms = Join [Mount.Source (last (bind_mounts ms)), defaultRootImagePath]"

text \<open>The file a disk of the descriptor points at.\<close>

definition disk_file :: "DomainDisk \<Rightarrow> string option" where
  "disk_file d =
     (case DomainDisk.Source d of
        None \<Rightarrow> None
      | Some src \<Rightarrow> map_option DomainDiskSourceFile.File (DomainDiskSource.File src))"

section \<open>Example hosts and machines\<close>

text \<open>
  A host on which every call succeeds: files exist, the image tool reports qcow2, the
  pid file holds 4242 and the engine reports a running domain.
\<close>

definition host0 :: World where
  "host0 =
     \<lparr> client_Connect = None,
       os_Stat = (\<lambda>p. Inr 4),
       os_ReadFile = (\<lambda>p. Inr ''4242''),
       os_Symlink = (\<lambda>old new. None),
       os_Remove = (\<lambda>p. None),
       os_OpenFile = (\<lambda>p. None),
       os_Open = (\<lambda>p. None),
       json_Decode = Inr \<lparr> Process = None \<rparr>,
       cmd_Output = (\<lambda>args. Printed ''format=qcow2''),
       json_Unmarshal = (\<lambda>res. Inr \<lparr> Path = [], VirtualSize = 0, Format = ''qcow2'', DirtyFlag = False \<rparr>),
       time_Now = 100,
       uuid_New = ''6ba7b810-9dad-11d1-80b4-00c04fd430c8'',
       xml_Marshal = Inr ''<domain/>'',
       DomainDefineXML = Inr \<lparr> libvirt_Domain.Name = ''vm1'', libvirt_Domain.UUID = replicate 16 1, ID = 1 \<rparr>,
       DomainCreate = None,
       DomainDestroy = None,
       DomainUndefineFlags = None,
       DomainGetState = Inr 1 \<rparr>"

text \<open>A host whose engine socket is missing.\<close>

definition host_no_engine :: World where
  "host_no_engine = host0\<lparr>client_Connect := Some (EngineError False ''dial unix /opt/homebrew/var/run/libvirt/libvirt-sock: connect: no such file or directory'')\<rparr>"

text \<open>A host on which the undefine fails for a reason other than not-found, and the unlink fails too.\<close>

definition host_undefine_fails :: World where
  "host_undefine_fails =
     host0\<lparr>DomainUndefineFlags := Some (EngineError False ''internal error: domain is busy''),
           os_Remove := (\<lambda>p. Some (PathError ''remove'' p ENOENT))\<rparr>"

text \<open>A host without pid files (every stat fails with ENOENT).\<close>

definition host_no_pidfile :: World where
  "host_no_pidfile = host0\<lparr>os_Stat := (\<lambda>p. Inl (PathError ''stat'' p ENOENT))\<rparr>"

text \<open>Hosts whose engine fails the state query: the domain is gone; the socket is closed.\<close>

definition host_domain_gone :: World where
  "host_domain_gone = host0\<lparr>DomainGetState := Inl (EngineError True ''Domain not found: no domain with matching uuid'')\<rparr>"

definition host_state_error :: World where
  "host_state_error = host0\<lparr>DomainGetState := Inl (EngineError False ''internal error: client socket is closed'')\<rparr>"

text \<open>Hosts whose engine fails the destroy call: the domain is not running; the socket is closed.\<close>

definition host_not_running :: World where
  "host_not_running = host0\<lparr>DomainDestroy := Some (EngineError False ''Requested operation is not valid: domain is not running''), time_Now := 200\<rparr>"

definition host_engine_down :: World where
  "host_engine_down = host0\<lparr>DomainDestroy := Some (EngineError False ''internal error: client socket is closed''), time_Now := 200\<rparr>"

text \<open>A host where the image tool reports no format, and one where only the seed image is missing.\<close>

definition host_no_format :: World where
  "host_no_format =
     host0\<lparr>json_Unmarshal := (\<lambda>res. Inr \<lparr> Path = [], VirtualSize = 0, Format = [], DirtyFlag = False \<rparr>)\<rparr>"

definition host_no_seed :: World where
  "host_no_seed =
     host0\<lparr>os_Stat := (\<lambda>p. if p = ''/snapshots/4/disk/cloudinit.iso''
                             then Inl (PathError ''stat'' p ENOENT) else Inr 4)\<rparr>"

text \<open>
  A host where the boot image exists, the image tool reports no format, and the seed
  image is missing.
\<close>

definition host_raw_no_seed :: World where
  "host_raw_no_seed =
     host0\<lparr>os_Stat := (\<lambda>p. if p = ''/snapshots/4/disk/cloudinit.iso''
                             then Inl (PathError ''stat'' p ENOENT) else Inr 4),
           json_Unmarshal := (\<lambda>res. Inr \<lparr> Path = [], VirtualSize = 0, Format = [], DirtyFlag = False \<rparr>)\<rparr>"

text \<open>Requests, specifications and machines for task \<open>vm1\<close>.\<close>

definition stdio0 :: Stdio where
  "stdio0 = \<lparr> Stdio.Stdin = [], Stdio.Stdout = [], Stdio.Stderr = [], Stdio.Terminal = False \<rparr>"

definition bind0 :: Mount where
  "bind0 = \<lparr> Mount.Type = ''bind'', Mount.Source = ''/snapshots/4'', Target = [], Options = [''rbind'', ''rw''] \<rparr>"

definition spec_bad_env :: Spec where
  "spec_bad_env = \<lparr> Process = Some \<lparr> Env = [''PATH=/usr/bin'', ''DEBUG''] \<rparr> \<rparr>"

definition spec_eq_env :: Spec where
  "spec_eq_env = \<lparr> Process = Some \<lparr> Env = [''OPTS=a=b''] \<rparr> \<rparr>"

definition create_vm1 :: CreateTaskRequest where
  "create_vm1 = \<lparr> CreateTaskRequest.ID = ''vm1'', Bundle = ''/run/b'', Rootfs = [],
      CreateTaskRequest.Terminal = False, CreateTaskRequest.Stdin = [], CreateTaskRequest.Stdout = [],
      CreateTaskRequest.Stderr = [], Checkpoint = [] \<rparr>"

definition delete_vm1 :: DeleteRequest where
  "delete_vm1 = \<lparr> DeleteRequest.ID = ''vm1'', ExecID = [] \<rparr>"

text \<open>The VM that \<open>NewVM\<close> builds for task \<open>vm1\<close> with one bind mount and no process section.\<close>

definition vm1 :: VM where
  "vm1 =
     \<lparr> id' = ''vm1'', stdio = stdio0, bundle' = ''/run/b'', pid = 0, status = 0,
       started = False, exited = False, exitedAt = 0, spec = \<lparr> Process = None \<rparr>,
       mounts = [bind0], env = Map.empty, domainMeta = zero_Domain, domain = None,
       cancelled = False \<rparr>"

text \<open>A VM built for a task whose request declares no mounts.\<close>

definition vm1_unbound :: VM where
  "vm1_unbound = vm1\<lparr>mounts := []\<rparr>"

text \<open>The VM \<open>vm1\<close> after a successful \<open>Init\<close> on \<open>host0\<close>.\<close>

definition vm1_defined :: VM where
  "vm1_defined =
     vm1\<lparr>domain := Some (RenderDomain ''vm1'' ''/run/b'' (uuid_New host0)),
         domainMeta := \<lparr> libvirt_Domain.Name = ''vm1'', libvirt_Domain.UUID = replicate 16 1, ID = 1 \<rparr>\<rparr>"

text \<open>That VM once started, and after a status query that cached pid 4242 followed by Kill.\<close>

definition vm1_running :: VM where
  "vm1_running = vm1_defined\<lparr>started := True\<rparr>"

definition vm1_killed :: VM where
  "vm1_killed = terminated (vm1_running\<lparr>pid := 4242\<rparr>) host0"

definition service0 :: TaskService where
  "service0 = \<lparr> shim_id = ''vm1'', events = [], vm = Map.empty, shimAddress = [], f = None \<rparr>"

section \<open>Environment parsing in NewVM\<close>

lemma Split_no_sep: "sep \<notin> set s \<Longrightarrow> Split s sep = [s]"
  by (induction s) auto

lemma parse_env_panics:
  "e \<in> set es \<Longrightarrow> CHR ''='' \<notin> set e \<Longrightarrow> parse_env es m = Panic IndexOutOfRange"
proof (induction es arbitrary: m)
  case Nil
  then show ?case by simp
next
  case (Cons x xs)
  show ?case
  proof (cases "x = e")
    case True
    with Cons.prems show ?thesis by (simp add: Split_no_sep)
  next
    case False
    with Cons.prems have "e \<in> set xs" by simp
    then have "\<And>m'. parse_env xs m' = Panic IndexOutOfRange"
      using Cons.IH Cons.prems(2) by blast
    then show ?thesis by (simp split: list.splits)
  qed
qed

text \<open>
  C8.  The claim: an entry \<open>NAME=VALUE\<close> binds \<open>NAME\<close> to the whole text after the first
  \<open>=\<close>, also when \<open>VALUE\<close> contains \<open>=\<close>.  The code splits at every \<open>=\<close> and stores the
  second piece: for the entry \<open>OPTS=a=b\<close> the map binds \<open>OPTS\<close> to \<open>a\<close>, not to \<open>a=b\<close>.
\<close>

theorem NewVM_env_value_cut_at_second_equals:
  "(case NewVM ''vm1'' stdio0 spec_eq_env ''/run/b'' [bind0] host0 of
      Return (Some v, None) \<Rightarrow> env v ''OPTS''
    | _ \<Rightarrow> None) = Some ''a''"
  by (simp add: NewVM_def host0_def spec_eq_env_def)

text \<open>
  C10, as amended.  Once the engine connection has been opened, \<open>NewVM\<close> panics with an
  index out of range whenever some entry of the declared process environment contains
  no \<open>=\<close>; and a \<open>Create\<close> call that opened its log file and read such a specification
  panics as well instead of returning an error.  When the connection fails, with
  whatever error and whatever environment, \<open>NewVM\<close> returns that error wrapped, and a
  \<open>Create\<close> call that opened its log file and read the specification returns it wrapped
  once more, keeping only the log file in the service.
\<close>

theorem NewVM_panics_on_entry_without_equals:
  "(client_Connect w = None \<and> Process sp = Some p \<and> e \<in> set (Env p) \<and> CHR ''='' \<notin> set e
     \<longrightarrow> NewVM ident io sp b fs w = Panic IndexOutOfRange
       \<and> (os_OpenFile w (Join [Join [''/var/log/containerd-shim-hvf-v1'', CreateTaskRequest.ID r], ''shim.log'']) = None
            \<and> readSpec w = (Some sp, None)
          \<longrightarrow> TaskService_Create s r w = Panic IndexOutOfRange))
   \<and> (\<forall>ce. client_Connect w = Some ce
     \<longrightarrow> NewVM ident io sp b fs w = Return (None, Some (Wrap ce ''failed to connect to libvirtd''))
       \<and> (os_OpenFile w (Join [Join [''/var/log/containerd-shim-hvf-v1'', CreateTaskRequest.ID r], ''shim.log'']) = None
            \<and> readSpec w = (Some sp, None)
          \<longrightarrow> TaskService_Create s r w =
                Return ((\<lparr> CreateTaskResponse.Pid' = 0 \<rparr>,
                         Some (ToGRPC (Wrap (Wrap ce ''failed to connect to libvirtd'')
                                         ''failed to create VM''))),
                        s\<lparr>f := Some (Join [Join [''/var/log/containerd-shim-hvf-v1'',
                                                   CreateTaskRequest.ID r], ''shim.log''])\<rparr>)))"
proof (intro conjI allI impI)
  assume "client_Connect w = None \<and> Process sp = Some p \<and> e \<in> set (Env p) \<and> CHR ''='' \<notin> set e"
  then have a: "client_Connect w = None" "Process sp = Some p" "e \<in> set (Env p)" "CHR ''='' \<notin> set e"
    by simp_all
  have pe: "parse_env (Env p) Map.empty = Panic IndexOutOfRange"
    using a(3,4) by (rule parse_env_panics)
  have n: "\<And>ident io b fs. NewVM ident io sp b fs w = Panic IndexOutOfRange"
    using a(1,2) pe by (simp add: NewVM_def)
  show "NewVM ident io sp b fs w = Panic IndexOutOfRange" by (rule n)
  assume "os_OpenFile w (Join [Join [''/var/log/containerd-shim-hvf-v1'', CreateTaskRequest.ID r], ''shim.log'']) = None
            \<and> readSpec w = (Some sp, None)"
  then show "TaskService_Create s r w = Panic IndexOutOfRange"
    using n by (simp add: TaskService_Create_def Let_def)
next
  fix ce
  assume c: "client_Connect w = Some ce"
  have n: "\<And>ident io b fs.
             NewVM ident io sp b fs w = Return (None, Some (Wrap ce ''failed to connect to libvirtd''))"
    using c by (simp add: NewVM_def)
  show "NewVM ident io sp b fs w = Return (None, Some (Wrap ce ''failed to connect to libvirtd''))"
    by (rule n)
  assume "os_OpenFile w (Join [Join [''/var/log/containerd-shim-hvf-v1'', CreateTaskRequest.ID r], ''shim.log'']) = None
            \<and> readSpec w = (Some sp, None)"
  then show "TaskService_Create s r w =
                Return ((\<lparr> CreateTaskResponse.Pid' = 0 \<rparr>,
                         Some (ToGRPC (Wrap (Wrap ce ''failed to connect to libvirtd'')
                                         ''failed to create VM''))),
                        s\<lparr>f := Some (Join [Join [''/var/log/containerd-shim-hvf-v1'',
                                                   CreateTaskRequest.ID r], ''shim.log''])\<rparr>)"
    using n by (simp add: TaskService_Create_def Let_def del: Join.simps)
qed

theorem NewVM_panics_on_entry_without_equals_witness:
  "NewVM ''vm1'' stdio0 spec_bad_env ''/run/b'' [bind0] host0 = Panic IndexOutOfRange
   \<and> TaskService_Create service0 create_vm1 (host0\<lparr>json_Decode := Inr spec_bad_env\<rparr>) = Panic IndexOutOfRange
   \<and> NewVM ''vm1'' stdio0 spec_eq_env ''/run/b'' [bind0] (host_no_engine\<lparr>json_Decode := Inr spec_eq_env\<rparr>) =
       Return (None, Some (Wrap (EngineError False ''dial unix /opt/homebrew/var/run/libvirt/libvirt-sock: connect: no such file or directory'')
                             ''failed to connect to libvirtd''))
   \<and> TaskService_Create service0 create_vm1 (host_no_engine\<lparr>json_Decode := Inr spec_eq_env\<rparr>) =
       Return ((\<lparr> CreateTaskResponse.Pid' = 0 \<rparr>,
                Some (ToGRPC (Wrap (Wrap (EngineError False ''dial unix /opt/homebrew/var/run/libvirt/libvirt-sock: connect: no such file or directory'')
                             ''failed to connect to libvirtd'') ''failed to create VM''))),
               service0\<lparr>f := Some ''/var/log/containerd-shim-hvf-v1/vm1/shim.log''\<rparr>)"
proof -
  have lg: "Join [Join [''/var/log/containerd-shim-hvf-v1'', CreateTaskRequest.ID create_vm1], ''shim.log'']
              = ''/var/log/containerd-shim-hvf-v1/vm1/shim.log''"
    by (simp add: create_vm1_def Clean_def)
  have a: "NewVM ''vm1'' stdio0 spec_bad_env ''/run/b'' [bind0] host0 = Panic IndexOutOfRange
     \<and> TaskService_Create service0 create_vm1 (host0\<lparr>json_Decode := Inr spec_bad_env\<rparr>) = Panic IndexOutOfRange"
    using NewVM_panics_on_entry_without_equals
            [of "host0\<lparr>json_Decode := Inr spec_bad_env\<rparr>" spec_bad_env "\<lparr> Env = [''PATH=/usr/bin'', ''DEBUG''] \<rparr>"
                "''DEBUG''" "''vm1''" stdio0 "''/run/b''" "[bind0]" create_vm1 service0, THEN conjunct1]
          NewVM_panics_on_entry_without_equals
            [of host0 spec_bad_env "\<lparr> Env = [''PATH=/usr/bin'', ''DEBUG''] \<rparr>"
                "''DEBUG''" "''vm1''" stdio0 "''/run/b''" "[bind0]" create_vm1 service0, THEN conjunct1]
    by (simp add: host0_def spec_bad_env_def readSpec_def NewVM_def)
  have c: "client_Connect (host_no_engine\<lparr>json_Decode := Inr spec_eq_env\<rparr>) =
             Some (EngineError False ''dial unix /opt/homebrew/var/run/libvirt/libvirt-sock: connect: no such file or directory'')"
    "readSpec (host_no_engine\<lparr>json_Decode := Inr spec_eq_env\<rparr>) = (Some spec_eq_env, None)"
    "\<And>q. os_OpenFile (host_no_engine\<lparr>json_Decode := Inr spec_eq_env\<rparr>) q = None"
    by (simp_all add: host_no_engine_def host0_def readSpec_def)
  have b: "NewVM ''vm1'' stdio0 spec_eq_env ''/run/b'' [bind0] (host_no_engine\<lparr>json_Decode := Inr spec_eq_env\<rparr>) =
       Return (None, Some (Wrap (EngineError False ''dial unix /opt/homebrew/var/run/libvirt/libvirt-sock: connect: no such file or directory'')
                             ''failed to connect to libvirtd''))
     \<and> TaskService_Create service0 create_vm1 (host_no_engine\<lparr>json_Decode := Inr spec_eq_env\<rparr>) =
       Return ((\<lparr> CreateTaskResponse.Pid' = 0 \<rparr>,
                Some (ToGRPC (Wrap (Wrap (EngineError False ''dial unix /opt/homebrew/var/run/libvirt/libvirt-sock: connect: no such file or directory'')
                             ''failed to connect to libvirtd'') ''failed to create VM''))),
               service0\<lparr>f := Some ''/var/log/containerd-shim-hvf-v1/vm1/shim.log''\<rparr>)"
    using NewVM_panics_on_entry_without_equals
            [of "host_no_engine\<lparr>json_Decode := Inr spec_eq_env\<rparr>" spec_eq_env _ _
                "''vm1''" stdio0 "''/run/b''" "[bind0]" create_vm1 service0, THEN conjunct2]
          c lg
    by (simp del: Join.simps)
  show ?thesis using a b by simp
qed

text \<open>
  C10 as stated fails where the engine cannot be reached: with the same environment
  (the entry \<open>DEBUG\<close> has no \<open>=\<close>) \<open>NewVM\<close> returns the wrapped connection error before it
  looks at the environment, and \<open>Create\<close> returns that error to its caller.
\<close>

theorem NewVM_connect_failure_returns_error:
  "NewVM ''vm1'' stdio0 spec_bad_env ''/run/b'' [bind0] host_no_engine =
     Return (None, Some (Wrap (EngineError False ''dial unix /opt/homebrew/var/run/libvirt/libvirt-sock: connect: no such file or directory'')
                           ''failed to connect to libvirtd''))
   \<and> TaskService_Create service0 create_vm1 (host_no_engine\<lparr>json_Decode := Inr spec_bad_env\<rparr>) =
     Return ((\<lparr> CreateTaskResponse.Pid' = 0 \<rparr>,
              Some (ToGRPC (Wrap (Wrap (EngineError False ''dial unix /opt/homebrew/var/run/libvirt/libvirt-sock: connect: no such file or directory'')
                           ''failed to connect to libvirtd'') ''failed to create VM''))),
             service0\<lparr>f := Some ''/var/log/containerd-shim-hvf-v1/vm1/shim.log''\<rparr>)"
  by (simp add: NewVM_def host_no_engine_def host0_def TaskService_Create_def readSpec_def create_vm1_def Clean_def Let_def)

section \<open>Delete\<close>

text \<open>
  C3.  The claim: \<open>Delete\<close> on a task whose VM was never initialized does not panic and
  returns a process id of 0.  On the code, \<open>VM.Delete\<close> returns, and then the service
  calls \<open>Pid\<close>, which reads \<^verbatim>\<open>v.domain.Name\<close> through the nil \<^verbatim>\<open>v.domain\<close>: the call panics,
  in every world.  The VM is the one \<open>NewVM\<close> builds; the same state is left in the
  service's map by a \<open>Create\<close> whose \<open>Init\<close> fails before the descriptor is rendered.
\<close>

theorem TaskService_Delete_undefined_domain_panics:
  "NewVM ''vm1'' stdio0 \<lparr> Process = None \<rparr> ''/run/b'' [] host0 = Return (Some vm1_unbound, None)
   \<and> domain vm1_unbound = None
   \<and> TaskService_Delete (service0\<lparr>vm := [''vm1'' \<mapsto> vm1_unbound]\<rparr>) delete_vm1 w
       = Panic NilPointerDereference
   \<and> TaskService_Create service0 create_vm1 host0 =
       Return ((\<lparr> CreateTaskResponse.Pid' = 0 \<rparr>,
                Some (ToGRPC (Wrap (Wrap (Wrap ErrInvalidImage ''no bind type mounts'')
                                 ''failed to set up rootfs'') ''failed to initialize VM''))),
               service0\<lparr>f := Some ''/var/log/containerd-shim-hvf-v1/vm1/shim.log'',
                        vm := [''vm1'' \<mapsto> vm1_unbound]\<rparr>)
   \<and> TaskService_Delete (service0\<lparr>f := Some ''/var/log/containerd-shim-hvf-v1/vm1/shim.log'',
                                  vm := [''vm1'' \<mapsto> vm1_unbound]\<rparr>) delete_vm1 w
       = Panic NilPointerDereference"
proof -
  have a: "NewVM ''vm1'' stdio0 \<lparr> Process = None \<rparr> ''/run/b'' [] host0 = Return (Some vm1_unbound, None)"
    by (simp add: NewVM_def host0_def vm1_unbound_def vm1_def)
  have b: "domain vm1_unbound = None"
    by (simp add: vm1_unbound_def vm1_def)
  have p: "\<And>w. Pid vm1_unbound w = Panic NilPointerDereference"
    using b by (simp add: Pid_def)
  have d: "\<And>s. vm s ''vm1'' = Some vm1_unbound \<Longrightarrow>
             TaskService_Delete s delete_vm1 w = Panic NilPointerDereference"
    using p by (simp add: TaskService_Delete_def delete_vm1_def Delete_def Let_def split: option.splits)
  have i: "Init vm1_unbound host0 =
             Return (Some (Wrap (Wrap ErrInvalidImage ''no bind type mounts'') ''failed to set up rootfs''),
                     vm1_unbound, [])"
    by (simp add: Init_def setupRootFS_def vm1_unbound_def vm1_def)
  have c: "TaskService_Create service0 create_vm1 host0 =
       Return ((\<lparr> CreateTaskResponse.Pid' = 0 \<rparr>,
                Some (ToGRPC (Wrap (Wrap (Wrap ErrInvalidImage ''no bind type mounts'')
                                 ''failed to set up rootfs'') ''failed to initialize VM''))),
               service0\<lparr>f := Some ''/var/log/containerd-shim-hvf-v1/vm1/shim.log'',
                        vm := [''vm1'' \<mapsto> vm1_unbound]\<rparr>)"
  proof -
    have o: "\<And>p. os_OpenFile host0 p = None" by (simp add: host0_def)
    have r: "readSpec host0 = (Some \<lparr> Process = None \<rparr>, None)"
      by (simp add: readSpec_def host0_def)
    have io: "\<lparr> Stdio.Stdin = CreateTaskRequest.Stdin create_vm1,
                 Stdio.Stdout = CreateTaskRequest.Stdout create_vm1,
                 Stdio.Stderr = CreateTaskRequest.Stderr create_vm1,
                 Stdio.Terminal = CreateTaskRequest.Terminal create_vm1 \<rparr> = stdio0"
      by (simp add: create_vm1_def stdio0_def)
    have rq: "CreateTaskRequest.ID create_vm1 = ''vm1''" "Bundle create_vm1 = ''/run/b''"
             "Rootfs create_vm1 = []"
      by (simp_all add: create_vm1_def)
    have idv: "VM.id' vm1_unbound = ''vm1''" by (simp add: vm1_unbound_def vm1_def)
    have lg: "Join [Join [''/var/log/containerd-shim-hvf-v1'', ''vm1''], ''shim.log'']
                = ''/var/log/containerd-shim-hvf-v1/vm1/shim.log''"
      by (simp add: Clean_def)
    show ?thesis
      by (simp add: TaskService_Create_def Let_def o r io rq a i idv lg service0_def
            del: Join.simps)
  qed
  show ?thesis using a b c d by (simp add: service0_def)
qed

text \<open>
  C5.  \<open>VM.Delete\<close> never returns an error as its error value and leaves the VM as it
  was.  The exit status is 0 when the undefine succeeds or fails with not-found, and 1
  carrying the error when it fails otherwise.  A failed unlink of the root-image link
  is logged, and whatever the unlink answers, the result is the same.
\<close>

theorem Delete_result:
  "snd (fst (Delete v w)) = None
   \<and> fst (snd (Delete v w)) = v
   \<and> (DomainUndefineFlags w = None \<longrightarrow>
        fst (fst (Delete v w)) = Some \<lparr> code = 0, exitedAt = VM.exitedAt v, err = None \<rparr>)
   \<and> (\<forall>e. DomainUndefineFlags w = Some e \<and> IsNotFound e \<longrightarrow>
        fst (fst (Delete v w)) = Some \<lparr> code = 0, exitedAt = VM.exitedAt v, err = None \<rparr>)
   \<and> (\<forall>e. DomainUndefineFlags w = Some e \<and> \<not> IsNotFound e \<longrightarrow>
        fst (fst (Delete v w)) = Some \<lparr> code = 1, exitedAt = VM.exitedAt v, err = Some e \<rparr>)
   \<and> (\<forall>e. os_Remove w (Join [bundle' v, ''rootfs'', defaultRootImagePath]) = Some e \<longrightarrow>
        snd (snd (Delete v w)) = [Logged ''failed to remove image path''])
   \<and> (\<forall>rm. fst (Delete v (w\<lparr>os_Remove := rm\<rparr>)) = fst (Delete v w))"
  by (simp add: Delete_def Let_def split: option.splits)

theorem Delete_result_witness:
  "fst (Delete vm1_defined host_undefine_fails) =
     (Some \<lparr> code = 1, exitedAt = 0, err = Some (EngineError False ''internal error: domain is busy'') \<rparr>, None)
   \<and> snd (snd (Delete vm1_defined host_undefine_fails)) = [Logged ''failed to remove image path'']
   \<and> fst (Delete vm1_defined (host0\<lparr>DomainUndefineFlags := Some (EngineError True ''Domain not found'')\<rparr>)) =
     (Some \<lparr> code = 0, exitedAt = 0, err = None \<rparr>, None)"
  using Delete_result [of vm1_defined host_undefine_fails]
        Delete_result [of vm1_defined "host0\<lparr>DomainUndefineFlags := Some (EngineError True ''Domain not found'')\<rparr>"]
  by (simp add: host_undefine_fails_def host0_def vm1_defined_def vm1_def prod_eq_iff)

section \<open>Unsupported operations\<close>

text \<open>
  C9.  Pause, Resume, Checkpoint, Exec, ResizePty, CloseIO, Update and Stats return a
  nil response and a nil error and leave the service as it was, for every service
  state and every request (so also for a request naming a task the service does not
  know).
\<close>

theorem unsupported_operations_succeed:
  "fst (Pause s r1) = (None, None) \<and> fst (snd (Pause s r1)) = s
   \<and> fst (Resume s r2) = (None, None) \<and> fst (snd (Resume s r2)) = s
   \<and> fst (Checkpoint' s r3) = (None, None) \<and> fst (snd (Checkpoint' s r3)) = s
   \<and> fst (Exec s r4) = (None, None) \<and> fst (snd (Exec s r4)) = s
   \<and> fst (ResizePty s r5) = (None, None) \<and> fst (snd (ResizePty s r5)) = s
   \<and> fst (CloseIO s r6) = (None, None) \<and> fst (snd (CloseIO s r6)) = s
   \<and> fst (Update s r7) = (None, None) \<and> fst (snd (Update s r7)) = s
   \<and> fst (Stats s r8) = (None, None) \<and> fst (snd (Stats s r8)) = s"
  by (simp add: Pause_def Resume_def Checkpoint'_def Exec_def ResizePty_def CloseIO_def Update_def
        Stats_def)

section \<open>The descriptor builder\<close>

text \<open>
  C7, as amended.  The descriptor is a function of the task id, the bundle path and the
  UUID drawn at the call: two descriptors for the same id and bundle are equal up to
  the UUID field.  Every descriptor carries 2 GiB of memory, 8 virtual CPUs, EFI
  firmware, a read-only CD-ROM on the seed image and a read-write qcow2 disk on the
  boot image (both under the bundle's \<open>rootfs/disk\<close>), one serial console, a VNC display
  listening on 0.0.0.0, and the vmnet-shared virtio network device as raw QEMU
  arguments.
\<close>

theorem RenderDomain_policy:
  "RenderDomain ident b u = (RenderDomain ident b u')\<lparr>Domain.UUID := u\<rparr>
   \<and> Domain.UUID (RenderDomain ident b u) = u
   \<and> Domain.Name (RenderDomain ident b u) = ident
   \<and> Memory (RenderDomain ident b u) = Some \<lparr> DomainMemory.Value = 2, DomainMemory.Unit = ''GiB'' \<rparr>
   \<and> VCPU (RenderDomain ident b u) = Some \<lparr> DomainVCPU.Value = 8 \<rparr>
   \<and> map_option Firmware (OS (RenderDomain ident b u)) = Some ''efi''
   \<and> map_option (map Device \<circ> Disks) (Devices (RenderDomain ident b u)) = Some [''cdrom'', ''disk'']
   \<and> map_option (map ReadOnly \<circ> Disks) (Devices (RenderDomain ident b u)) = Some [Some (), None]
   \<and> map_option (map disk_file \<circ> Disks) (Devices (RenderDomain ident b u)) =
        Some [Some (Join [b, ''rootfs'', ''disk'', ''cloudinit.iso'']),
              Some (Join [b, ''rootfs'', ''disk'', ''boot.qcow2''])]
   \<and> map_option (map (map_option DomainDiskDriver.Type \<circ> Driver) \<circ> Disks) (Devices (RenderDomain ident b u)) =
        Some [Some ''raw'', Some ''qcow2'']
   \<and> map_option (map (map_option DomainConsoleTarget.Type \<circ> DomainConsole.Target) \<circ> Consoles)
        (Devices (RenderDomain ident b u)) = Some [Some ''serial'']
   \<and> map_option (map (map_option Listen \<circ> VNC) \<circ> Graphics) (Devices (RenderDomain ident b u)) =
        Some [Some ''0.0.0.0'']
   \<and> map_option (map DomainQEMUCommandlineArg.Value \<circ> Args) (QEMUCommandline (RenderDomain ident b u)) =
        Some [''-netdev'', ''vmnet-shared,id=net0'', ''-device'', ''virtio-net-device,netdev=net0'']"
  by (simp add: RenderDomain_def disk_file_def defaultRootImagePath_def defaultRootImageFileName_def
        defaultCloudInitImageFileName_def)

text \<open>
  C7 as stated fails: two invocations with the same task id and bundle path, drawing
  different UUIDs, yield different descriptors.
\<close>

theorem RenderDomain_differs_by_uuid:
  "RenderDomain ''vm1'' ''/run/b'' ''6ba7b810-9dad-11d1-80b4-00c04fd430c8''
     \<noteq> RenderDomain ''vm1'' ''/run/b'' ''6ba7b811-9dad-11d1-80b4-00c04fd430c8''"
  by (simp add: RenderDomain_def)

section \<open>Pid caching and the status query\<close>

lemma Pid_caches: "Pid v w = Return (n, v1) \<Longrightarrow> caches_pid v v1"
  by (auto simp: Pid_def caches_pid_def split: option.splits if_splits sum.splits)

lemma caches_pid_refl: "caches_pid v v"
  by (simp add: caches_pid_def)

lemma caches_pid_trans: "caches_pid v v1 \<Longrightarrow> caches_pid v1 v2 \<Longrightarrow> caches_pid v v2"
  unfolding caches_pid_def
  by (elim disjE conjE) (auto split: option.splits)

lemma caches_pid_fields:
  assumes "caches_pid v v1"
  shows "started v1 = started v" "exited v1 = exited v" "domain v1 = domain v"
    "VM.id' v1 = VM.id' v" "cancelled v1 = cancelled v" "VM.exitedAt v1 = VM.exitedAt v"
proof -
  from assms have "v1 = v \<or> v1 = v\<lparr>pid := pid v1\<rparr>" by (auto simp: caches_pid_def)
  then have "\<exists>p. v1 = v\<lparr>pid := p\<rparr>" by (metis VM.surjective VM.update_convs(4))
  then obtain p where "v1 = v\<lparr>pid := p\<rparr>" ..
  then show "started v1 = started v" "exited v1 = exited v" "domain v1 = domain v"
    "VM.id' v1 = VM.id' v" "cancelled v1 = cancelled v" "VM.exitedAt v1 = VM.exitedAt v"
    by simp_all
qed

lemma caches_pid_keeps: "caches_pid v v1 \<Longrightarrow> pid v \<noteq> 0 \<Longrightarrow> v1 = v"
  by (auto simp: caches_pid_def)

lemma Status_caches: "Status v w = Return (r, v1) \<Longrightarrow> caches_pid v v1"
  by (auto simp: Status_def caches_pid_refl split: if_splits outcome.splits sum.splits dest: Pid_caches)

text \<open>
  C1.  The status query follows the priority table: never started gives Created;
  started with \<open>Pid\<close> answering 0 gives Stopped if the VM is marked exited and Unknown
  otherwise; started with a non-zero pid gives Created, Running, Paused, Pausing or
  Stopped for the engine states 0, 1, 3 or 7, 4, 5 or 6; a query error whose text
  contains \<open>not found\<close> gives Stopped if marked exited and Unknown otherwise; any other
  query error gives Unknown together with that error.  The answer depends on the four
  signals only: two queries with equal signals give equal answers.
\<close>

theorem Status_priority_table:
  "(\<not> started v \<longrightarrow> Status v w = Return ((Created, None), v))
   \<and> (started v \<and> Pid v w = Return (0, v1) \<longrightarrow>
        Status v w = Return ((if exited v then Stopped else Unknown, None), v1))
   \<and> (started v \<and> Pid v w = Return (n, v1) \<and> n \<noteq> 0 \<longrightarrow>
        (DomainGetState w = Inr 0 \<longrightarrow> Status v w = Return ((Created, None), v1))
      \<and> (DomainGetState w = Inr 1 \<longrightarrow> Status v w = Return ((Running, None), v1))
      \<and> (DomainGetState w = Inr 3 \<or> DomainGetState w = Inr 7 \<longrightarrow>
           Status v w = Return ((Paused, None), v1))
      \<and> (DomainGetState w = Inr 4 \<longrightarrow> Status v w = Return ((Pausing, None), v1))
      \<and> (DomainGetState w = Inr 5 \<or> DomainGetState w = Inr 6 \<longrightarrow>
           Status v w = Return ((Stopped, None), v1))
      \<and> (\<forall>e. DomainGetState w = Inl e \<and> Contains (Error e) ''not found'' \<longrightarrow>
           Status v w = Return ((if exited v then Stopped else Unknown, None), v1))
      \<and> (\<forall>e. DomainGetState w = Inl e \<and> \<not> Contains (Error e) ''not found'' \<longrightarrow>
           Status v w = Return ((Unknown, Some e), v1)))
   \<and> (\<forall>v' w'. status_signals v w = status_signals v' w' \<longrightarrow>
        status_of (Status v w) = status_of (Status v' w'))"
proof (intro conjI)
  show "\<not> started v \<longrightarrow> Status v w = Return ((Created, None), v)"
    by (simp add: Status_def)
next
  show "started v \<and> Pid v w = Return (0, v1) \<longrightarrow>
        Status v w = Return ((if exited v then Stopped else Unknown, None), v1)"
  proof (intro impI, elim conjE)
    assume s: "started v" and p: "Pid v w = Return (0, v1)"
    have "exited v1 = exited v" using Pid_caches [OF p] by (rule caches_pid_fields)
    then show "Status v w = Return ((if exited v then Stopped else Unknown, None), v1)"
      using s p by (simp add: Status_def)
  qed
next
  show "started v \<and> Pid v w = Return (n, v1) \<and> n \<noteq> 0 \<longrightarrow>
        (DomainGetState w = Inr 0 \<longrightarrow> Status v w = Return ((Created, None), v1))
      \<and> (DomainGetState w = Inr 1 \<longrightarrow> Status v w = Return ((Running, None), v1))
      \<and> (DomainGetState w = Inr 3 \<or> DomainGetState w = Inr 7 \<longrightarrow>
           Status v w = Return ((Paused, None), v1))
      \<and> (DomainGetState w = Inr 4 \<longrightarrow> Status v w = Return ((Pausing, None), v1))
      \<and> (DomainGetState w = Inr 5 \<or> DomainGetState w = Inr 6 \<longrightarrow>
           Status v w = Return ((Stopped, None), v1))
      \<and> (\<forall>e. DomainGetState w = Inl e \<and> Contains (Error e) ''not found'' \<longrightarrow>
           Status v w = Return ((if exited v then Stopped else Unknown, None), v1))
      \<and> (\<forall>e. DomainGetState w = Inl e \<and> \<not> Contains (Error e) ''not found'' \<longrightarrow>
           Status v w = Return ((Unknown, Some e), v1))"
  proof (intro impI, elim conjE)
    assume s: "started v" and p: "Pid v w = Return (n, v1)" and n: "n \<noteq> 0"
    have x: "exited v1 = exited v" using Pid_caches [OF p] by (rule caches_pid_fields)
    show "(DomainGetState w = Inr 0 \<longrightarrow> Status v w = Return ((Created, None), v1))
      \<and> (DomainGetState w = Inr 1 \<longrightarrow> Status v w = Return ((Running, None), v1))
      \<and> (DomainGetState w = Inr 3 \<or> DomainGetState w = Inr 7 \<longrightarrow>
           Status v w = Return ((Paused, None), v1))
      \<and> (DomainGetState w = Inr 4 \<longrightarrow> Status v w = Return ((Pausing, None), v1))
      \<and> (DomainGetState w = Inr 5 \<or> DomainGetState w = Inr 6 \<longrightarrow>
           Status v w = Return ((Stopped, None), v1))
      \<and> (\<forall>e. DomainGetState w = Inl e \<and> Contains (Error e) ''not found'' \<longrightarrow>
           Status v w = Return ((if exited v then Stopped else Unknown, None), v1))
      \<and> (\<forall>e. DomainGetState w = Inl e \<and> \<not> Contains (Error e) ''not found'' \<longrightarrow>
           Status v w = Return ((Unknown, Some e), v1))"
      using s p n x by (auto simp: Status_def)
  qed
next
  show "\<forall>v' w'. status_signals v w = status_signals v' w' \<longrightarrow>
        status_of (Status v w) = status_of (Status v' w')"
  proof (intro allI impI)
    fix v' w'
    assume eq: "status_signals v w = status_signals v' w'"
    then have st: "started v' = started v" and ex: "exited v' = exited v"
      and gs: "DomainGetState w' = DomainGetState w"
      by (simp_all add: status_signals_def)
    show "status_of (Status v w) = status_of (Status v' w')"
    proof (cases "started v")
      case False
      with st show ?thesis by (simp add: Status_def status_of_def)
    next
      case True
      show ?thesis
      proof (cases "Pid v w")
        case (Panic p)
        with eq have "Pid v' w' = Panic p"
          by (auto simp: status_signals_def split: outcome.splits)
        with Panic True st show ?thesis by (simp add: Status_def status_of_def)
      next
        case (Return r)
        obtain n v1 where r: "r = (n, v1)" by (cases r)
        with Return have p1: "Pid v w = Return (n, v1)" by simp
        with eq obtain n' v1' where p2: "Pid v' w' = Return (n', v1')" and nz: "(n' = 0) = (n = 0)"
          by (auto simp: status_signals_def split: outcome.splits)
        have x1: "exited v1 = exited v" using Pid_caches [OF p1] by (rule caches_pid_fields)
        have x2: "exited v1' = exited v" using Pid_caches [OF p2] ex by (simp add: caches_pid_fields)
        show ?thesis
          using True st p1 p2 nz x1 x2 gs
          by (auto simp: Status_def status_of_def split: sum.splits)
      qed
    qed
  qed
qed


lemma Status_vm1_running:
  "Pid vm1_running host0 = Return (4242, vm1_running\<lparr>pid := 4242\<rparr>)"
  by (simp add: Pid_def vm1_running_def vm1_defined_def vm1_def host0_def RenderDomain_def
        pidFile_def Atoi_def is_digit_def uint32_def)

theorem Status_priority_table_witness:
  "Status vm1_defined host0 = Return ((Created, None), vm1_defined)
   \<and> Status (vm1_running\<lparr>exited := True\<rparr>) host_no_pidfile
        = Return ((Stopped, None), vm1_running\<lparr>exited := True\<rparr>)
   \<and> Status vm1_running host0 = Return ((Running, None), vm1_running\<lparr>pid := 4242\<rparr>)
   \<and> Status vm1_running host_domain_gone = Return ((Unknown, None), vm1_running\<lparr>pid := 4242\<rparr>)
   \<and> Status vm1_running host_state_error
        = Return ((Unknown, Some (EngineError False ''internal error: client socket is closed'')),
                  vm1_running\<lparr>pid := 4242\<rparr>)"
proof -
  have p0: "Pid (vm1_running\<lparr>exited := True\<rparr>) host_no_pidfile = Return (0, vm1_running\<lparr>exited := True\<rparr>)"
    by (simp add: Pid_def vm1_running_def vm1_defined_def vm1_def host_no_pidfile_def host0_def
          RenderDomain_def)
  have p1: "Pid vm1_running host_domain_gone = Return (4242, vm1_running\<lparr>pid := 4242\<rparr>)"
    by (simp add: Pid_def vm1_running_def vm1_defined_def vm1_def host_domain_gone_def host0_def
          RenderDomain_def pidFile_def Atoi_def is_digit_def uint32_def)
  have p2: "Pid vm1_running host_state_error = Return (4242, vm1_running\<lparr>pid := 4242\<rparr>)"
    by (simp add: Pid_def vm1_running_def vm1_defined_def vm1_def host_state_error_def host0_def
          RenderDomain_def pidFile_def Atoi_def is_digit_def uint32_def)
  have s: "\<not> started vm1_defined" "started vm1_running" "started (vm1_running\<lparr>exited := True\<rparr>)"
    "\<not> exited vm1_running"
    by (simp_all add: vm1_running_def vm1_defined_def vm1_def)
  have g: "DomainGetState host0 = Inr 1"
    "DomainGetState host_domain_gone = Inl (EngineError True ''Domain not found: no domain with matching uuid'')"
    "DomainGetState host_state_error = Inl (EngineError False ''internal error: client socket is closed'')"
    by (simp_all add: host0_def host_domain_gone_def host_state_error_def)
  have c: "Contains ''Domain not found: no domain with matching uuid'' ''not found''"
    "\<not> Contains ''internal error: client socket is closed'' ''not found''"
    by code_simp+
  show ?thesis
    using Status_priority_table [of vm1_defined host0]
      Status_priority_table [of "vm1_running\<lparr>exited := True\<rparr>" host_no_pidfile "vm1_running\<lparr>exited := True\<rparr>"]
      Status_priority_table [of vm1_running host0 "vm1_running\<lparr>pid := 4242\<rparr>" 4242]
      Status_priority_table [of vm1_running host_domain_gone "vm1_running\<lparr>pid := 4242\<rparr>" 4242]
      Status_priority_table [of vm1_running host_state_error "vm1_running\<lparr>pid := 4242\<rparr>" 4242]
      p0 p1 p2 s g c Status_vm1_running
    by simp
qed

section \<open>Kill\<close>

text \<open>
  C2, as amended.  When the destroy call reports not-found or \<open>is not running\<close> (or
  succeeds), \<open>Kill\<close> returns no error, records the exit time, sets the exited flag and
  cancels the VM's context.  A second \<open>Kill\<close> after a successful one returns no error,
  for every signal, whenever the engine answers the repeated destroy with success,
  not-found or not-running.  Any other engine error, on a first or on a second call,
  is returned wrapped with the domain's name and leaves the VM as it was, for a VM
  whose descriptor has been rendered.
\<close>

theorem Kill_idempotent:
  "(\<forall>e. DomainDestroy w = Some e \<and> (IsNotFound e \<or> Contains (Error e) ''is not running'') \<longrightarrow>
        Kill v sg w = Return (None, terminated v w))
   \<and> (DomainDestroy w = None \<longrightarrow> Kill v sg w = Return (None, terminated v w))
   \<and> exited (terminated v w) \<and> VM.exitedAt (terminated v w) = time_Now w
   \<and> cancelled (terminated v w)
   \<and> (\<forall>v1 sg2 w2.
        Kill v sg w = Return (None, v1)
        \<and> (DomainDestroy w2 = None
           \<or> (\<exists>e. DomainDestroy w2 = Some e \<and> (IsNotFound e \<or> Contains (Error e) ''is not running'')))
        \<longrightarrow> Kill v1 sg2 w2 = Return (None, terminated v1 w2) \<and> exited (terminated v1 w2))
   \<and> (\<forall>e d.
        DomainDestroy w = Some e \<and> \<not> IsNotFound e \<and> \<not> Contains (Error e) ''is not running''
        \<and> domain v = Some d
        \<longrightarrow> Kill v sg w =
              Return (Some (Wrap e (''failed to stop VM '' @ quoted (Domain.Name d))), v))
   \<and> (\<forall>v1 sg2 w2 e d.
        Kill v sg w = Return (None, v1)
        \<and> DomainDestroy w2 = Some e \<and> \<not> IsNotFound e \<and> \<not> Contains (Error e) ''is not running''
        \<and> domain v1 = Some d
        \<longrightarrow> Kill v1 sg2 w2 =
              Return (Some (Wrap e (''failed to stop VM '' @ quoted (Domain.Name d))), v1))"
proof -
  have other: "\<And>u s ww e d.
      DomainDestroy ww = Some e \<Longrightarrow> \<not> IsNotFound e \<Longrightarrow> \<not> Contains (Error e) ''is not running''
      \<Longrightarrow> domain u = Some d
      \<Longrightarrow> Kill u s ww = Return (Some (Wrap e (''failed to stop VM '' @ quoted (Domain.Name d))), u)"
    by (simp add: Kill_def)
  have gone: "(\<forall>e. DomainDestroy w = Some e \<and> (IsNotFound e \<or> Contains (Error e) ''is not running'') \<longrightarrow>
        Kill v sg w = Return (None, terminated v w))
   \<and> (DomainDestroy w = None \<longrightarrow> Kill v sg w = Return (None, terminated v w))
   \<and> exited (terminated v w) \<and> VM.exitedAt (terminated v w) = time_Now w
   \<and> cancelled (terminated v w)
   \<and> (\<forall>v1 sg2 w2.
        Kill v sg w = Return (None, v1)
        \<and> (DomainDestroy w2 = None
           \<or> (\<exists>e. DomainDestroy w2 = Some e \<and> (IsNotFound e \<or> Contains (Error e) ''is not running'')))
        \<longrightarrow> Kill v1 sg2 w2 = Return (None, terminated v1 w2) \<and> exited (terminated v1 w2))"
    by (auto simp: Kill_def terminated_def)
  show ?thesis using gone other by blast
qed

theorem Kill_idempotent_witness:
  "Kill vm1_running 15 host0 = Return (None, terminated vm1_running host0)
   \<and> Kill (terminated vm1_running host0) 9 host_not_running
        = Return (None, terminated (terminated vm1_running host0) host_not_running)
   \<and> exited (terminated (terminated vm1_running host0) host_not_running)
   \<and> Kill (terminated vm1_running host0) 9 host_engine_down
        = Return (Some (Wrap (EngineError False ''internal error: client socket is closed'')
                          (''failed to stop VM '' @ quoted ''vm1'')),
                  terminated vm1_running host0)"
proof -
  have d: "DomainDestroy host0 = None"
    "DomainDestroy host_not_running = Some (EngineError False ''Requested operation is not valid: domain is not running'')"
    "DomainDestroy host_engine_down = Some (EngineError False ''internal error: client socket is closed'')"
    by (simp_all add: host0_def host_not_running_def host_engine_down_def)
  have c: "Contains (Error (EngineError False ''Requested operation is not valid: domain is not running'')) ''is not running''"
    "\<not> Contains (Error (EngineError False ''internal error: client socket is closed'')) ''is not running''"
    by code_simp+
  have n: "\<not> IsNotFound (EngineError False ''internal error: client socket is closed'')" by simp
  have dm: "domain (terminated vm1_running host0) = Some (RenderDomain ''vm1'' ''/run/b'' (uuid_New host0))"
    "Domain.Name (RenderDomain ''vm1'' ''/run/b'' (uuid_New host0)) = ''vm1''"
    by (simp_all add: terminated_def vm1_running_def vm1_defined_def RenderDomain_def)
  note t = Kill_idempotent [of host0 vm1_running 15]
  have k1: "Kill vm1_running 15 host0 = Return (None, terminated vm1_running host0)"
    using t d(1) by blast
  have k2: "Kill (terminated vm1_running host0) 9 host_not_running
        = Return (None, terminated (terminated vm1_running host0) host_not_running)
      \<and> exited (terminated (terminated vm1_running host0) host_not_running)"
    using t k1 d(2) c(1) by blast
  have k3: "Kill (terminated vm1_running host0) 9 host_engine_down
        = Return (Some (Wrap (EngineError False ''internal error: client socket is closed'')
                          (''failed to stop VM '' @ quoted (Domain.Name (RenderDomain ''vm1'' ''/run/b'' (uuid_New host0))))),
                  terminated vm1_running host0)"
    using t k1 d(3) c(2) n dm(1) by blast
  show ?thesis using k1 k2 k3 dm(2) by simp
qed

text \<open>
  C2 as stated fails: after a successful \<open>Kill\<close>, a second \<open>Kill\<close> whose destroy call
  fails for another reason (here the engine socket is closed) returns the wrapped
  error.
\<close>

theorem Kill_second_call_can_fail:
  "Kill vm1_running 15 host0 = Return (None, terminated vm1_running host0)
   \<and> Kill (terminated vm1_running host0) 15 host_engine_down
        = Return (Some (Wrap (EngineError False ''internal error: client socket is closed'')
                          (''failed to stop VM '' @ quoted ''vm1'')),
                  terminated vm1_running host0)"
proof -
  have c: "\<not> Contains ''internal error: client socket is closed'' ''is not running''"
    by code_simp
  have a: "Kill vm1_running 15 host0 = Return (None, terminated vm1_running host0)"
    by (simp add: Kill_def host0_def)
  have d: "domain (terminated vm1_running host0) = Some (RenderDomain ''vm1'' ''/run/b'' (uuid_New host0))"
    by (simp add: terminated_def vm1_running_def vm1_defined_def)
  have b: "Kill (terminated vm1_running host0) 15 host_engine_down
        = Return (Some (Wrap (EngineError False ''internal error: client socket is closed'')
                          (''failed to stop VM '' @ quoted ''vm1'')),
                  terminated vm1_running host0)"
    using c d by (simp add: Kill_def host_engine_down_def RenderDomain_def)
  show ?thesis using a b by simp
qed

section \<open>Image validation\<close>

lemma Clean_nonempty: "Clean p \<noteq> []"
  by (simp add: Clean_def Let_def)

lemma Join2_nonempty: "b \<noteq> [] \<Longrightarrow> Join [a, b] \<noteq> []"
  by (simp add: Clean_nonempty)

lemma bind_paths_last:
  "bind_paths ms acc =
     (if bind_mounts ms = [] then acc
      else (root_image_dir ms,
            Join [root_image_dir ms, defaultRootImageFileName],
            Join [root_image_dir ms, defaultCloudInitImageFileName]))"
proof (induction ms arbitrary: acc)
  case Nil
  then show ?case by (simp add: bind_mounts_def)
next
  case (Cons m ms)
  show ?case
  proof (cases "Mount.Type m = ''bind''")
    case False
    then show ?thesis using Cons.IH by (simp add: bind_mounts_def root_image_dir_def)
  next
    case True
    then show ?thesis
      using Cons.IH by (simp add: bind_mounts_def root_image_dir_def Let_def del: Join.simps)
  qed
qed

lemma boot_path_nonempty: "Join [d, defaultRootImageFileName] \<noteq> []"
  by (rule Join2_nonempty) (simp add: defaultRootImageFileName_def)

lemma setupRootFS_effects:
  "setupRootFS v w = Return (r, effs) \<Longrightarrow>
     effs = (case r of
               None \<Rightarrow> [Symlinked (root_image_dir (mounts v))
                          (Join [bundle' v, ''rootfs'', defaultRootImagePath])]
             | Some e \<Rightarrow> [])"
proof (cases "bind_mounts (mounts v) = []")
  case True
  assume "setupRootFS v w = Return (r, effs)"
  with True show ?thesis by (auto simp: setupRootFS_def bind_paths_last)
next
  case False
  assume a: "setupRootFS v w = Return (r, effs)"
  show ?thesis
    using a False boot_path_nonempty [of "root_image_dir (mounts v)"]
    by (simp add: setupRootFS_def bind_paths_last del: Join.simps
          split: sum.splits outcome.splits option.splits prod.splits if_splits)
       (metis option.exhaust option.distinct(1))+
qed

text \<open>
  C4, as amended.  With no bind mount the validation fails with InvalidImage.  Otherwise
  the root-image directory comes from the last bind mount, and the checks run in this
  order: a failing stat of the boot image is returned as it is (not-found when the file
  is absent); then, the boot image inspected, a format other than qcow2 fails with
  InvalidImage, and a format the tool leaves out counts as \<open>raw\<close>; then a failing stat of
  the seed image is returned as it is; then, when the symlink call succeeds, the one
  effect is the link from the bundle's \<open>rootfs/disk\<close> to the directory.
\<close>

theorem setupRootFS_validation:
  "(bind_mounts (mounts v) = [] \<longrightarrow>
      setupRootFS v w = Return (Some (Wrap ErrInvalidImage ''no bind type mounts''), []))
   \<and> (bind_mounts (mounts v) \<noteq> [] \<longrightarrow>
        (\<forall>e. os_Stat w (Join [root_image_dir (mounts v), defaultRootImageFileName]) = Inl e \<longrightarrow>
             setupRootFS v w = Return (Some e, []))
      \<and> (\<forall>n info.
             os_Stat w (Join [root_image_dir (mounts v), defaultRootImageFileName]) = Inr n
             \<and> getImageInfo (Join [root_image_dir (mounts v), defaultRootImageFileName]) w
                 = Return (Some info, None)
             \<and> Format info \<noteq> ''qcow2'' \<longrightarrow>
             setupRootFS v w =
               Return (Some (Wrap ErrInvalidImage
                         (Join [root_image_dir (mounts v), defaultRootImageFileName]
                            @ '' is not a qcow2 image'')), []))
      \<and> (\<forall>n info e.
             os_Stat w (Join [root_image_dir (mounts v), defaultRootImageFileName]) = Inr n
             \<and> getImageInfo (Join [root_image_dir (mounts v), defaultRootImageFileName]) w
                 = Return (Some info, None)
             \<and> Format info = ''qcow2''
             \<and> os_Stat w (Join [root_image_dir (mounts v), defaultCloudInitImageFileName]) = Inl e \<longrightarrow>
             setupRootFS v w = Return (Some e, []))
      \<and> (\<forall>n info n'.
             os_Stat w (Join [root_image_dir (mounts v), defaultRootImageFileName]) = Inr n
             \<and> getImageInfo (Join [root_image_dir (mounts v), defaultRootImageFileName]) w
                 = Return (Some info, None)
             \<and> Format info = ''qcow2''
             \<and> os_Stat w (Join [root_image_dir (mounts v), defaultCloudInitImageFileName]) = Inr n'
             \<and> os_Symlink w (root_image_dir (mounts v))
                  (Join [bundle' v, ''rootfs'', defaultRootImagePath]) = None \<longrightarrow>
             setupRootFS v w =
               Return (None, [Symlinked (root_image_dir (mounts v))
                                (Join [bundle' v, ''rootfs'', defaultRootImagePath])])))
   \<and> (\<forall>effs. setupRootFS v w = Return (None, effs) \<longrightarrow>
        effs = [Symlinked (root_image_dir (mounts v))
                  (Join [bundle' v, ''rootfs'', defaultRootImagePath])])
   \<and> (\<forall>e effs. setupRootFS v w = Return (Some e, effs) \<longrightarrow> effs = [])
   \<and> (\<forall>p res info.
        cmd_Output w [''qemu-img'', ''info'', p, ''--output=json''] = Printed res
        \<and> json_Unmarshal w res = Inr info \<and> Format info = [] \<longrightarrow>
        getImageInfo p w = Return (Some (info\<lparr>Format := ''raw''\<rparr>), None))
   \<and> (\<forall>m. IsInvalidImage (Wrap ErrInvalidImage m))
   \<and> (\<forall>p. IsNotExist (PathError ''stat'' p ENOENT))"
proof (intro conjI)
  show "bind_mounts (mounts v) = [] \<longrightarrow>
      setupRootFS v w = Return (Some (Wrap ErrInvalidImage ''no bind type mounts''), [])"
    by (simp add: setupRootFS_def bind_paths_last)
next
  show "bind_mounts (mounts v) \<noteq> [] \<longrightarrow>
        (\<forall>e. os_Stat w (Join [root_image_dir (mounts v), defaultRootImageFileName]) = Inl e \<longrightarrow>
             setupRootFS v w = Return (Some e, []))
      \<and> (\<forall>n info.
             os_Stat w (Join [root_image_dir (mounts v), defaultRootImageFileName]) = Inr n
             \<and> getImageInfo (Join [root_image_dir (mounts v), defaultRootImageFileName]) w
                 = Return (Some info, None)
             \<and> Format info \<noteq> ''qcow2'' \<longrightarrow>
             setupRootFS v w =
               Return (Some (Wrap ErrInvalidImage
                         (Join [root_image_dir (mounts v), defaultRootImageFileName]
                            @ '' is not a qcow2 image'')), []))
      \<and> (\<forall>n info e.
             os_Stat w (Join [root_image_dir (mounts v), defaultRootImageFileName]) = Inr n
             \<and> getImageInfo (Join [root_image_dir (mounts v), defaultRootImageFileName]) w
                 = Return (Some info, None)
             \<and> Format info = ''qcow2''
             \<and> os_Stat w (Join [root_image_dir (mounts v), defaultCloudInitImageFileName]) = Inl e \<longrightarrow>
             setupRootFS v w = Return (Some e, []))
      \<and> (\<forall>n info n'.
             os_Stat w (Join [root_image_dir (mounts v), defaultRootImageFileName]) = Inr n
             \<and> getImageInfo (Join [root_image_dir (mounts v), defaultRootImageFileName]) w
                 = Return (Some info, None)
             \<and> Format info = ''qcow2''
             \<and> os_Stat w (Join [root_image_dir (mounts v), defaultCloudInitImageFileName]) = Inr n'
             \<and> os_Symlink w (root_image_dir (mounts v))
                  (Join [bundle' v, ''rootfs'', defaultRootImagePath]) = None \<longrightarrow>
             setupRootFS v w =
               Return (None, [Symlinked (root_image_dir (mounts v))
                                (Join [bundle' v, ''rootfs'', defaultRootImagePath])]))"
    using boot_path_nonempty [of "root_image_dir (mounts v)"]
    by (simp add: setupRootFS_def bind_paths_last del: Join.simps)
next
  show "\<forall>effs. setupRootFS v w = Return (None, effs) \<longrightarrow>
        effs = [Symlinked (root_image_dir (mounts v))
                  (Join [bundle' v, ''rootfs'', defaultRootImagePath])]"
  proof (intro allI impI)
    fix effs
    assume "setupRootFS v w = Return (None, effs)"
    from setupRootFS_effects [OF this]
    show "effs = [Symlinked (root_image_dir (mounts v))
                    (Join [bundle' v, ''rootfs'', defaultRootImagePath])]"
      by simp
  qed
next
  show "\<forall>e effs. setupRootFS v w = Return (Some e, effs) \<longrightarrow> effs = []"
  proof (intro allI impI)
    fix e effs
    assume "setupRootFS v w = Return (Some e, effs)"
    from setupRootFS_effects [OF this] show "effs = []" by simp
  qed
next
  show "\<forall>p res info.
        cmd_Output w [''qemu-img'', ''info'', p, ''--output=json''] = Printed res
        \<and> json_Unmarshal w res = Inr info \<and> Format info = [] \<longrightarrow>
        getImageInfo p w = Return (Some (info\<lparr>Format := ''raw''\<rparr>), None)"
    by (simp add: getImageInfo_def)
next
  show "\<forall>m. IsInvalidImage (Wrap ErrInvalidImage m)" by simp
next
  show "\<forall>p. IsNotExist (PathError ''stat'' p ENOENT)" by simp
qed

lemma vm1_image_paths:
  "bind_mounts (mounts vm1) = [bind0]"
  "root_image_dir (mounts vm1) = ''/snapshots/4/disk''"
  "Join [''/snapshots/4/disk'', defaultRootImageFileName] = ''/snapshots/4/disk/boot.qcow2''"
  "Join [''/snapshots/4/disk'', defaultCloudInitImageFileName] = ''/snapshots/4/disk/cloudinit.iso''"
  "Join [bundle' vm1, ''rootfs'', defaultRootImagePath] = ''/run/b/rootfs/disk''"
  by (simp_all add: bind_mounts_def root_image_dir_def vm1_def bind0_def Clean_def
        defaultRootImagePath_def defaultRootImageFileName_def defaultCloudInitImageFileName_def)

theorem setupRootFS_validation_witness:
  "setupRootFS vm1 host0 =
     Return (None, [Symlinked ''/snapshots/4/disk'' ''/run/b/rootfs/disk''])
   \<and> setupRootFS vm1_unbound host0 = Return (Some (Wrap ErrInvalidImage ''no bind type mounts''), [])
   \<and> setupRootFS vm1 host_no_pidfile =
       Return (Some (PathError ''stat'' ''/snapshots/4/disk/boot.qcow2'' ENOENT), [])
   \<and> setupRootFS vm1 host_no_format =
       Return (Some (Wrap ErrInvalidImage ''/snapshots/4/disk/boot.qcow2 is not a qcow2 image''), [])
   \<and> setupRootFS vm1 host_no_seed =
       Return (Some (PathError ''stat'' ''/snapshots/4/disk/cloudinit.iso'' ENOENT), [])"
proof -
  have g: "getImageInfo ''/snapshots/4/disk/boot.qcow2'' host0 =
             Return (Some \<lparr> Path = [], VirtualSize = 0, Format = ''qcow2'', DirtyFlag = False \<rparr>, None)"
    "getImageInfo ''/snapshots/4/disk/boot.qcow2'' host_no_seed =
             Return (Some \<lparr> Path = [], VirtualSize = 0, Format = ''qcow2'', DirtyFlag = False \<rparr>, None)"
    "getImageInfo ''/snapshots/4/disk/boot.qcow2'' host_no_format =
             Return (Some \<lparr> Path = [], VirtualSize = 0, Format = ''raw'', DirtyFlag = False \<rparr>, None)"
    by (simp_all add: getImageInfo_def host0_def host_no_seed_def host_no_format_def)
  have h: "\<And>p. os_Stat host0 p = Inr 4" "\<And>a b. os_Symlink host0 a b = None"
    "\<And>p. os_Stat host_no_pidfile p = Inl (PathError ''stat'' p ENOENT)"
    "\<And>p. os_Stat host_no_format p = Inr 4"
    "os_Stat host_no_seed ''/snapshots/4/disk/boot.qcow2'' = Inr 4"
    "os_Stat host_no_seed ''/snapshots/4/disk/cloudinit.iso''
       = Inl (PathError ''stat'' ''/snapshots/4/disk/cloudinit.iso'' ENOENT)"
    by (simp_all add: host0_def host_no_pidfile_def host_no_format_def host_no_seed_def)
  have u: "bind_mounts (mounts vm1_unbound) = []"
    by (simp add: vm1_unbound_def bind_mounts_def)
  have a: "setupRootFS vm1 host0 =
     Return (None, [Symlinked ''/snapshots/4/disk'' ''/run/b/rootfs/disk''])"
    using setupRootFS_validation [of vm1 host0, THEN conjunct2, THEN conjunct1] g(1) h(1,2)
    by (simp add: vm1_image_paths del: Join.simps)
  have b: "setupRootFS vm1_unbound host0 = Return (Some (Wrap ErrInvalidImage ''no bind type mounts''), [])"
    using setupRootFS_validation [of vm1_unbound host0, THEN conjunct1] u by simp
  have c: "setupRootFS vm1 host_no_pidfile =
       Return (Some (PathError ''stat'' ''/snapshots/4/disk/boot.qcow2'' ENOENT), [])"
    using setupRootFS_validation [of vm1 host_no_pidfile, THEN conjunct2, THEN conjunct1] h(3)
    by (simp add: vm1_image_paths del: Join.simps)
  have d: "setupRootFS vm1 host_no_format =
       Return (Some (Wrap ErrInvalidImage ''/snapshots/4/disk/boot.qcow2 is not a qcow2 image''), [])"
    using setupRootFS_validation [of vm1 host_no_format, THEN conjunct2, THEN conjunct1] g(3) h(4)
    by (simp add: vm1_image_paths del: Join.simps)
  have e: "setupRootFS vm1 host_no_seed =
       Return (Some (PathError ''stat'' ''/snapshots/4/disk/cloudinit.iso'' ENOENT), [])"
    using setupRootFS_validation [of vm1 host_no_seed, THEN conjunct2, THEN conjunct1] g(2) h(5,6)
    by (simp add: vm1_image_paths del: Join.simps)
  show ?thesis using a b c d e by simp
qed

text \<open>
  C4 as stated fails: with the seed image absent and a boot image whose format is not
  qcow2, the validation fails with InvalidImage, not with a not-found error, because the
  format is checked before the seed image is looked for.
\<close>

theorem setupRootFS_missing_seed_reported_as_invalid_image:
  "bind_mounts (mounts vm1) = [bind0]
   \<and> root_image_dir (mounts vm1) = ''/snapshots/4/disk''
   \<and> os_Stat host_raw_no_seed ''/snapshots/4/disk/cloudinit.iso''
        = Inl (PathError ''stat'' ''/snapshots/4/disk/cloudinit.iso'' ENOENT)
   \<and> setupRootFS vm1 host_raw_no_seed =
        Return (Some (Wrap ErrInvalidImage ''/snapshots/4/disk/boot.qcow2 is not a qcow2 image''), [])
   \<and> \<not> IsNotExist (Wrap ErrInvalidImage ''/snapshots/4/disk/boot.qcow2 is not a qcow2 image'')"
proof -
  have s: "setupRootFS vm1 host_raw_no_seed =
        Return (Some (Wrap ErrInvalidImage ''/snapshots/4/disk/boot.qcow2 is not a qcow2 image''), [])"
    by (simp add: setupRootFS_def getImageInfo_def host_raw_no_seed_def host0_def vm1_def bind0_def
          Clean_def defaultRootImagePath_def defaultRootImageFileName_def
          defaultCloudInitImageFileName_def)
  show ?thesis using s by (simp add: vm1_image_paths host_raw_no_seed_def)
qed


section \<open>Invariants over sequences of operations\<close>

lemma Wait_loop_caches: "Wait_loop v evs = Return (b, v1) \<Longrightarrow> caches_pid v v1"
proof (induction v evs rule: Wait_loop.induct)
  case (1 v)
  then show ?case by (simp add: caches_pid_refl)
next
  case (2 v w evs)
  from "2.prems" obtain st e v' where s: "Status v w = Return ((st, e), v')"
    by (auto split: outcome.splits)
  have c: "caches_pid v v'" using s by (rule Status_caches)
  show ?case
  proof (cases "e = None \<and> st = Stopped")
    case True
    with "2.prems" s have "v1 = v'" by auto
    with c show ?thesis by simp
  next
    case False
    with "2.prems" s have "Wait_loop v' evs = Return (b, v1)" by auto
    with "2.IH" s False have "caches_pid v' v1" by auto
    with c show ?thesis by (rule caches_pid_trans)
  qed
next
  case (3 v w evs)
  show ?case
  proof (cases "cancelled v")
    case False
    with "3.prems" "3.IH"(1) show ?thesis by simp
  next
    case True
    from "3.prems" True obtain st e v' where s: "Status v w = Return ((st, e), v')"
      by (auto split: outcome.splits)
    have c: "caches_pid v v'" using s by (rule Status_caches)
    show ?thesis
    proof (cases "e = None \<and> st = Stopped")
      case t: True
      with "3.prems" True s have "v1 = v'" by auto
      with c show ?thesis by simp
    next
      case f: False
      with "3.prems" True s have "Wait_loop v' evs = Return (b, v1)" by auto
      with "3.IH"(2) True s f have "caches_pid v' v1" by auto
      with c show ?thesis by (rule caches_pid_trans)
    qed
  qed
next
  case (4 v evs)
  then show ?case by (simp add: caches_pid_refl)
qed

lemma Wait_caches: "Wait v evs w = Return (r, v1) \<Longrightarrow> caches_pid v v1"
  by (auto simp: Wait_def split: outcome.splits bool.splits dest: Wait_loop_caches)

lemma caches_pid_wf:
  assumes c: "caches_pid v v1" and wf: "pid_cache_wf v"
  shows "pid_cache_wf v1"
proof -
  have d: "domain v1 = domain v" and i: "VM.id' v1 = VM.id' v"
    using c by (rule caches_pid_fields)+
  from c have "v1 = v \<or> (\<exists>d. domain v = Some d \<and> Domain.Name d \<noteq> [])"
    by (auto simp: caches_pid_def split: option.splits)
  then show ?thesis
  proof
    assume "v1 = v"
    with wf show ?thesis by simp
  next
    assume "\<exists>d. domain v = Some d \<and> Domain.Name d \<noteq> []"
    then obtain d where "domain v = Some d" "Domain.Name d \<noteq> []" by blast
    with wf d i show ?thesis by (simp add: pid_cache_wf_def)
  qed
qed

lemma Init_fields:
  assumes "Init v w = Return (e, v1, effs)"
  shows "exited v1 = exited v" "pid v1 = pid v" "VM.id' v1 = VM.id' v"
    "domain v1 = domain v \<or> domain v1 = Some (RenderDomain (VM.id' v) (bundle' v) (uuid_New w))"
  using assms
  by (auto simp: Init_def Let_def split: outcome.splits option.splits sum.splits prod.splits)

lemma Init_wf: "Init v w = Return (e, v1, effs) \<Longrightarrow> pid_cache_wf v \<Longrightarrow> pid_cache_wf v1"
  using Init_fields [of v w e v1 effs]
  by (auto simp: pid_cache_wf_def RenderDomain_def split: option.splits)

lemma Start_fields:
  assumes "Start v w = Return (e, v1)"
  shows "exited v1 = exited v" "pid v1 = pid v" "VM.id' v1 = VM.id' v" "domain v1 = domain v"
  using assms by (auto simp: Start_def split: option.splits)

lemma Kill_fields:
  assumes "Kill v sg w = Return (e, v1)"
  shows "exited v \<longrightarrow> exited v1" "pid v1 = pid v" "VM.id' v1 = VM.id' v" "domain v1 = domain v"
  using assms by (auto simp: Kill_def terminated_def split: option.splits if_splits)

lemma Delete_fields: "Delete v w = (r, v1, effs) \<Longrightarrow> v1 = v"
  by (auto simp: Delete_def Let_def split: option.splits if_splits)

lemma apply_op_exited: "apply_op v ow = Return v1 \<Longrightarrow> exited v \<Longrightarrow> exited v1"
proof (cases ow)
  case (Pair opn w)
  assume a: "apply_op v ow = Return v1" and x: "exited v"
  show ?thesis
  proof (cases opn)
    case OpInit
    with a Pair x show ?thesis by (auto split: outcome.splits dest: Init_fields(1))
  next
    case OpStart
    with a Pair x show ?thesis by (auto split: outcome.splits dest: Start_fields(1))
  next
    case (OpKill sg)
    with a Pair x show ?thesis by (auto split: outcome.splits dest: Kill_fields(1))
  next
    case OpStatus
    with a Pair x show ?thesis
      by (auto split: outcome.splits dest!: Status_caches caches_pid_fields(2))
  next
    case OpPid
    with a Pair x show ?thesis
      by (auto split: outcome.splits dest!: Pid_caches caches_pid_fields(2))
  next
    case OpDelete
    with a Pair x show ?thesis by (auto split: prod.splits dest: Delete_fields)
  next
    case (OpWait evs)
    with a Pair x show ?thesis
      by (auto split: outcome.splits dest!: Wait_caches caches_pid_fields(2))
  qed
qed

lemma apply_op_pid: "apply_op v ow = Return v1 \<Longrightarrow> pid v \<noteq> 0 \<Longrightarrow> pid v1 = pid v"
proof (cases ow)
  case (Pair opn w)
  assume a: "apply_op v ow = Return v1" and x: "pid v \<noteq> 0"
  show ?thesis
  proof (cases opn)
    case OpInit
    with a Pair x show ?thesis by (auto split: outcome.splits dest: Init_fields(2))
  next
    case OpStart
    with a Pair x show ?thesis by (auto split: outcome.splits dest: Start_fields(2))
  next
    case (OpKill sg)
    with a Pair x show ?thesis by (auto split: outcome.splits dest: Kill_fields(2))
  next
    case OpStatus
    with a Pair x show ?thesis
      by (auto split: outcome.splits dest!: Status_caches caches_pid_keeps)
  next
    case OpPid
    with a Pair x show ?thesis
      by (auto split: outcome.splits dest!: Pid_caches caches_pid_keeps)
  next
    case OpDelete
    with a Pair x show ?thesis by (auto split: prod.splits dest: Delete_fields)
  next
    case (OpWait evs)
    with a Pair x show ?thesis
      by (auto split: outcome.splits dest!: Wait_caches caches_pid_keeps)
  qed
qed

lemma apply_op_wf: "apply_op v ow = Return v1 \<Longrightarrow> pid_cache_wf v \<Longrightarrow> pid_cache_wf v1"
proof (cases ow)
  case (Pair opn w)
  assume a: "apply_op v ow = Return v1" and x: "pid_cache_wf v"
  show ?thesis
  proof (cases opn)
    case OpInit
    with a Pair x show ?thesis by (auto split: outcome.splits dest: Init_wf)
  next
    case OpStart
    with a Pair obtain e where "Start v w = Return (e, v1)" by (auto split: outcome.splits)
    from Start_fields [OF this] x show ?thesis
      by (auto simp: pid_cache_wf_def split: option.splits)
  next
    case (OpKill sg)
    with a Pair obtain e where "Kill v sg w = Return (e, v1)" by (auto split: outcome.splits)
    from Kill_fields [OF this] x show ?thesis
      by (auto simp: pid_cache_wf_def split: option.splits)
  next
    case OpStatus
    with a Pair x show ?thesis
      by (auto split: outcome.splits dest!: Status_caches intro: caches_pid_wf)
  next
    case OpPid
    with a Pair x show ?thesis
      by (auto split: outcome.splits dest!: Pid_caches intro: caches_pid_wf)
  next
    case OpDelete
    with a Pair x show ?thesis by (auto split: prod.splits dest: Delete_fields)
  next
    case (OpWait evs)
    with a Pair x show ?thesis
      by (auto split: outcome.splits dest!: Wait_caches intro: caches_pid_wf)
  qed
qed

lemma run_ops_exited: "run_ops v ows = Return v1 \<Longrightarrow> exited v \<Longrightarrow> exited v1"
proof (induction ows arbitrary: v)
  case Nil
  then show ?case by simp
next
  case (Cons ow ows)
  from Cons.prems(1) obtain v' where s: "apply_op v ow = Return v'" and r: "run_ops v' ows = Return v1"
    by (auto split: outcome.splits)
  from apply_op_exited [OF s Cons.prems(2)] r show ?case by (rule Cons.IH [rotated])
qed

lemma run_ops_pid: "run_ops v ows = Return v1 \<Longrightarrow> pid v \<noteq> 0 \<Longrightarrow> pid v1 = pid v"
proof (induction ows arbitrary: v)
  case Nil
  then show ?case by simp
next
  case (Cons ow ows)
  from Cons.prems(1) obtain v' where s: "apply_op v ow = Return v'" and r: "run_ops v' ows = Return v1"
    by (auto split: outcome.splits)
  have p: "pid v' = pid v" using s Cons.prems(2) by (rule apply_op_pid)
  with Cons.IH [OF r] Cons.prems(2) show ?case by simp
qed

lemma run_ops_wf: "run_ops v ows = Return v1 \<Longrightarrow> pid_cache_wf v \<Longrightarrow> pid_cache_wf v1"
proof (induction ows arbitrary: v)
  case Nil
  then show ?case by simp
next
  case (Cons ow ows)
  from Cons.prems(1) obtain v' where s: "apply_op v ow = Return v'" and r: "run_ops v' ows = Return v1"
    by (auto split: outcome.splits)
  from apply_op_wf [OF s Cons.prems(2)] r show ?case by (rule Cons.IH [rotated])
qed

lemma NewVM_wf: "NewVM ident io sp b fs w = Return (Some v, None) \<Longrightarrow> pid_cache_wf v"
  by (auto simp: NewVM_def pid_cache_wf_def split: option.splits outcome.splits)

lemma Pid_cached: "pid_cache_wf v \<Longrightarrow> pid v \<noteq> 0 \<Longrightarrow> Pid v w = Return (uint32 (pid v), v)"
  by (auto simp: Pid_def pid_cache_wf_def split: option.splits)

text \<open>
  C6.  Along every sequence of Init, Start, Kill, Status, Pid, Delete and Wait that
  returns, an exited flag that is set stays set.  For a VM built by \<open>NewVM\<close> and taken
  through any such sequence, once the cached pid is non-zero, \<open>Pid\<close> answers that cached
  value (as a 32-bit number) in every world, so without consulting the pid file, the
  VM is left as it is, and no later operation changes the cached pid.
\<close>

theorem exited_and_cached_pid_are_stable:
  "(exited v \<and> run_ops v ows = Return v1 \<longrightarrow> exited v1)
   \<and> (NewVM ident io sp b fs w0 = Return (Some v0, None) \<and> run_ops v0 ows0 = Return v2
        \<and> pid v2 \<noteq> 0 \<longrightarrow>
        (\<forall>w. Pid v2 w = Return (uint32 (pid v2), v2))
        \<and> (\<forall>ows' v3. run_ops v2 ows' = Return v3 \<longrightarrow>
              pid v3 = pid v2 \<and> (\<forall>w. Pid v3 w = Return (uint32 (pid v2), v3))))
   \<and> (0 \<le> pid v2 \<and> pid v2 < 4294967296 \<longrightarrow> int (uint32 (pid v2)) = pid v2)"
proof (intro conjI impI)
  assume "exited v \<and> run_ops v ows = Return v1"
  then show "exited v1" using run_ops_exited by blast
next
  assume a: "NewVM ident io sp b fs w0 = Return (Some v0, None) \<and> run_ops v0 ows0 = Return v2
        \<and> pid v2 \<noteq> 0"
  then have wf0: "pid_cache_wf v0" using NewVM_wf by blast
  from a have wf2: "pid_cache_wf v2" using run_ops_wf wf0 by blast
  from a have nz: "pid v2 \<noteq> 0" by simp
  show "\<forall>w. Pid v2 w = Return (uint32 (pid v2), v2)"
    using wf2 nz by (simp add: Pid_cached)
  show "\<forall>ows' v3. run_ops v2 ows' = Return v3 \<longrightarrow>
              pid v3 = pid v2 \<and> (\<forall>w. Pid v3 w = Return (uint32 (pid v2), v3))"
  proof (intro allI impI)
    fix ows' v3
    assume r: "run_ops v2 ows' = Return v3"
    have p: "pid v3 = pid v2" using r nz by (rule run_ops_pid)
    have wf3: "pid_cache_wf v3" using r wf2 by (rule run_ops_wf)
    show "pid v3 = pid v2 \<and> (\<forall>w. Pid v3 w = Return (uint32 (pid v2), v3))"
      using p wf3 nz Pid_cached [of v3] by simp
  qed
next
  assume "0 \<le> pid v2 \<and> pid v2 < 4294967296"
  then show "int (uint32 (pid v2)) = pid v2" by (simp add: uint32_def)
qed


lemma vm1_lifecycle:
  "NewVM ''vm1'' stdio0 \<lparr> Process = None \<rparr> ''/run/b'' [bind0] host0 = Return (Some vm1, None)"
  "run_ops vm1 [(OpInit, host0), (OpStart, host0), (OpStatus, host0), (OpKill 15, host0)]
     = Return vm1_killed"
  "pid vm1_killed = 4242"
  "exited vm1_killed"
proof -
  show "NewVM ''vm1'' stdio0 \<lparr> Process = None \<rparr> ''/run/b'' [bind0] host0 = Return (Some vm1, None)"
    by (simp add: NewVM_def host0_def vm1_def)
  have i: "Init vm1 host0 =
             Return (None, vm1_defined, [Symlinked ''/snapshots/4/disk'' ''/run/b/rootfs/disk''])"
    by (simp add: Init_def setupRootFS_def getImageInfo_def host0_def vm1_def vm1_defined_def
          bind0_def Clean_def defaultRootImagePath_def defaultRootImageFileName_def
          defaultCloudInitImageFileName_def)
  have s: "Start vm1_defined host0 = Return (None, vm1_running)"
    by (simp add: Start_def host0_def vm1_running_def)
  have st: "Status vm1_running host0 = Return ((Running, None), vm1_running\<lparr>pid := 4242\<rparr>)"
    using Status_vm1_running
    by (simp add: Status_def) (simp add: vm1_running_def host0_def)
  have k: "Kill (vm1_running\<lparr>pid := 4242\<rparr>) 15 host0 = Return (None, vm1_killed)"
    by (simp add: Kill_def vm1_killed_def) (simp add: host0_def)
  show "run_ops vm1 [(OpInit, host0), (OpStart, host0), (OpStatus, host0), (OpKill 15, host0)]
     = Return vm1_killed"
    by (simp add: i s st k)
  show "pid vm1_killed = 4242" "exited vm1_killed"
    by (simp_all add: vm1_killed_def terminated_def)
qed

theorem exited_and_cached_pid_are_stable_witness:
  "run_ops vm1 [(OpInit, host0), (OpStart, host0), (OpStatus, host0), (OpKill 15, host0)]
     = Return vm1_killed
   \<and> Pid vm1_killed host_no_pidfile = Return (4242, vm1_killed)
   \<and> run_ops vm1_killed [(OpStatus, host_domain_gone), (OpDelete, host0), (OpPid, host_no_pidfile)]
       = Return vm1_killed
   \<and> exited vm1_killed"
proof -
  have p: "\<And>w. Pid vm1_killed w = Return (4242, vm1_killed)"
    using exited_and_cached_pid_are_stable
            [where ident = "''vm1''" and io = stdio0 and sp = "\<lparr> Process = None \<rparr>"
               and b = "''/run/b''" and fs = "[bind0]" and ?w0.0 = host0 and ?v0.0 = vm1
               and ?ows0.0 = "[(OpInit, host0), (OpStart, host0), (OpStatus, host0), (OpKill 15, host0)]"
               and ?v2.0 = vm1_killed and v = vm1_killed and ?v1.0 = vm1_killed
               and ows = "[(OpStatus, host_domain_gone), (OpDelete, host0), (OpPid, host_no_pidfile)]"]
          vm1_lifecycle
    by (simp add: uint32_def)
  have s: "Status vm1_killed host_domain_gone = Return ((Stopped, None), vm1_killed)"
  proof -
    have c: "Contains ''Domain not found: no domain with matching uuid'' ''not found''"
      by code_simp
    have "started vm1_killed"
      by (simp add: vm1_killed_def terminated_def vm1_running_def)
    then show ?thesis
      using c vm1_lifecycle(4) by (simp add: Status_def p host_domain_gone_def)
  qed
  have d: "Delete vm1_killed host0 =
             ((Some \<lparr> code = 0, exitedAt = 100, err = None \<rparr>, None), vm1_killed,
              [Removed ''/run/b/rootfs/disk''])"
    by (simp add: Delete_def host0_def vm1_killed_def terminated_def vm1_running_def
          vm1_defined_def vm1_def Clean_def defaultRootImagePath_def)
  have r: "run_ops vm1_killed [(OpStatus, host_domain_gone), (OpDelete, host0), (OpPid, host_no_pidfile)]
       = Return vm1_killed"
    by (simp add: s d p)
  show ?thesis using p r vm1_lifecycle by simp
qed


end
